theory Spec2Isabelle
  imports Complex_Main "HOL-Library.Log_Nat"
begin

section \<open>Data model of \<^verbatim>\<open>stargate/stargate.py\<close>\<close>

text \<open>
  The module is sequential glue over collaborators that are not part of the sources
  (\<^verbatim>\<open>EVMNetwork\<close>, the web3 client, \<^verbatim>\<open>StargateConstants\<close>, the error classes). A call of a
  collaborator is a fallible, state-changing step on an abstract world \<open>'w\<close>: it returns
  either the exception it raises (\<open>Inl\<close>) or its value (\<open>Inr\<close>), and the next world.
\<close>

text \<open>
  Modelled from the spec: the error classes of \<^verbatim>\<open>base/errors.py\<close> are not part of the sources.
  The spec's taxonomy has \<^verbatim>\<open>TransactionNotFound\<close> and \<^verbatim>\<open>TransactionFailed\<close>, raised with a message.
  The other constructors are the Python exceptions of the operations the module itself
  performs (indexing, dictionary lookup, float conversion) and \<open>External\<close>, any exception a
  collaborator raises.
\<close>

datatype error =
    TransactionNotFound string
  | TransactionFailed string
  | IndexError
  | KeyError
  | ValueError
  | OverflowError
  | External string

text \<open>
  Modelled from the spec: the enum \<^verbatim>\<open>TransactionStatus\<close> of \<^verbatim>\<open>network/network.py\<close> is not part
  of the sources. The spec's \<^verbatim>\<open>TransactionOutcome\<close> is one of Success, Failed and NotFound,
  the three members the code names. \<open>OTHER n\<close> stands for any further value a caller may
  pass (Python does not enforce the annotation), which compares unequal to the three.
\<close>

datatype TransactionStatus = NOT_FOUND | FAILED | SUCCESS | OTHER nat

datatype tx_value = Int_val int | Str_val string

type_synonym dict = "(string \<times> tx_value) list"

text \<open>The arguments of the router's \<^verbatim>\<open>swap\<close> entry point, in the order of the call.\<close>

datatype contract_call =
  Swap int int int string int int "int \<times> int \<times> string" string string

record transaction =
  tx_to :: string
  tx_call :: contract_call
  tx_fields :: dict

datatype signed_transaction = Signed transaction string

datatype event =
    Get_balance string
  | Get_approve_gas_limit
  | Get_current_gas
  | Quote_layerzero_fee string int int string string "int \<times> int \<times> string"
  | Get_nonce string
  | Get_transaction_gas_params
  | Get_token_balance string string
  | Get_token_allowance string string string
  | Approve_token_usage string string string int
  | Wait_for_transaction string
  | Send_raw_transaction signed_transaction

datatype log_record =
    Message string
  | Estimated_fees int dict
  | Swap_sent string

record 'w state =
  world :: 'w
  calls :: "event list"
  logged :: "log_record list"

type_synonym ('w, 'a) rpc = "'w \<Rightarrow> (error + 'a) \<times> 'w"

type_synonym ('w, 'a) prog = "'w state \<Rightarrow> (error + 'a) \<times> 'w state"

definition ret :: "'a \<Rightarrow> ('w, 'a) prog" where
  "ret a = (\<lambda>s. (Inr a, s))"

definition raise :: "error \<Rightarrow> ('w, 'a) prog" where
  "raise e = (\<lambda>s. (Inl e, s))"

definition bind_prog :: "('w, 'a) prog \<Rightarrow> ('a \<Rightarrow> ('w, 'b) prog) \<Rightarrow> ('w, 'b) prog" where
  "bind_prog m f = (\<lambda>s. case m s of (Inl e, s') \<Rightarrow> (Inl e, s') | (Inr a, s') \<Rightarrow> f a s')"

definition lift :: "error + 'a \<Rightarrow> ('w, 'a) prog" where
  "lift r = (\<lambda>s. (r, s))"

text \<open>A call of a network method: recorded in \<open>calls\<close>, answered by the collaborator.\<close>

definition call :: "event \<Rightarrow> ('w, 'a) rpc \<Rightarrow> ('w, 'a) prog" where
  "call ev f = (\<lambda>s. case f (world s) of
      (r, w') \<Rightarrow> (r, s\<lparr>world := w', calls := calls s @ [ev]\<rparr>))"

definition info :: "log_record \<Rightarrow> ('w, unit) prog" where
  "info m = (\<lambda>s. (Inr (), s\<lparr>logged := logged s @ [m]\<rparr>))"

text \<open>The transactions that change the chain: a token approval and a raw transaction.\<close>

fun state_changing :: "event \<Rightarrow> bool" where
  "state_changing (Approve_token_usage k t sp a) = True"
| "state_changing (Send_raw_transaction tx) = True"
| "state_changing ev = False"

section \<open>Collaborators\<close>

text \<open>
  Modelled from the spec: \<^verbatim>\<open>Stablecoin\<close> (\<^verbatim>\<open>utility.py\<close>) and \<^verbatim>\<open>EVMNetwork\<close>
  (\<^verbatim>\<open>network/network.py\<close>) are not part of the sources. The records below have the
  attributes and methods the module reads, with the names it uses; the spec lists the same
  methods as consumed from the network collaborator. \<^verbatim>\<open>LocalAccount\<close> is the signer of the
  \<^verbatim>\<open>eth_account\<close> library: an address and a private key.
\<close>

record LocalAccount =
  address :: string
  key :: string

record Stablecoin =
  contract_address :: string
  symbol :: string
  stargate_pool_id :: int

text \<open>
  The part of web3 the module uses through \<^verbatim>\<open>network.w3\<close>: the checksum conversion of an
  address (pure, raises on a malformed address), the read-only call of the router's
  \<^verbatim>\<open>quoteLayerZeroFee\<close> (its result is a tuple) and the submission of a signed transaction.
\<close>

record 'w Web3 =
  to_checksum_address :: "string \<Rightarrow> error + string"
  quoteLayerZeroFee :: "string \<Rightarrow> int \<Rightarrow> int \<Rightarrow> string \<Rightarrow> string \<Rightarrow> int \<times> int \<times> string
                          \<Rightarrow> ('w, int list) rpc"
  send_raw_transaction :: "signed_transaction \<Rightarrow> ('w, string) rpc"

record 'w EVMNetwork =
  name :: string
  stargate_chain_id :: int
  stargate_router_address :: string
  w3 :: "'w Web3"
  get_balance :: "string \<Rightarrow> ('w, int) rpc"
  get_token_balance :: "string \<Rightarrow> string \<Rightarrow> ('w, int) rpc"
  get_token_allowance :: "string \<Rightarrow> string \<Rightarrow> string \<Rightarrow> ('w, int) rpc"
  approve_token_usage :: "string \<Rightarrow> string \<Rightarrow> string \<Rightarrow> int \<Rightarrow> ('w, string) rpc"
  wait_for_transaction :: "string \<Rightarrow> ('w, TransactionStatus) rpc"
  get_nonce :: "string \<Rightarrow> ('w, int) rpc"
  get_transaction_gas_params :: "('w, dict) rpc"
  get_current_gas :: "('w, int) rpc"
  get_approve_gas_limit :: "('w, int) rpc"

text \<open>
  Modelled from the spec: \<^verbatim>\<open>StargateConstants\<close> (\<^verbatim>\<open>stargate/constants.py\<close>) is not part of the
  sources. The spec calls \<^verbatim>\<open>get_max_randomized_swap_gas_limit\<close> the "max randomized swap gas
  limit (network-specific constant)": each network name has a range of swap gas limits,
  the randomized limit is drawn from the range and the maximum is its upper end. The draw
  comes from the process-wide random generator, a part of the world.
\<close>

record 'w StargateConstants =
  SWAP_GAS_LIMIT :: "string \<Rightarrow> (int \<times> int) option"
  random_draw :: "'w \<Rightarrow> nat \<times> 'w"

definition get_max_randomized_swap_gas_limit :: "'w StargateConstants \<Rightarrow> string \<Rightarrow> error + int" where
  "get_max_randomized_swap_gas_limit constants network_name =
     (case SWAP_GAS_LIMIT constants network_name of
        None \<Rightarrow> Inl KeyError
      | Some (lo, hi) \<Rightarrow> Inr hi)"

definition get_randomized_swap_gas_limit :: "'w StargateConstants \<Rightarrow> string \<Rightarrow> ('w, int) prog" where
  "get_randomized_swap_gas_limit constants network_name =
     (case SWAP_GAS_LIMIT constants network_name of
        None \<Rightarrow> raise KeyError
      | Some (lo, hi) \<Rightarrow>
          if hi < lo then raise ValueError
          else (\<lambda>s. case random_draw constants (world s) of
                  (r, w') \<Rightarrow> (Inr (lo + int (r mod nat (hi - lo + 1))), s\<lparr>world := w'\<rparr>)))"

section \<open>Python dictionaries and floats\<close>

text \<open>
  A dictionary literal inserts its items from left to right: a key that is already there
  keeps its place and takes the new value; \<^verbatim>\<open>**d\<close> inserts the items of \<open>d\<close> in turn.
\<close>

fun dict_set :: "dict \<Rightarrow> string \<Rightarrow> tx_value \<Rightarrow> dict" where
  "dict_set [] k v = [(k, v)]"
| "dict_set ((k', v') # d) k v = (if k' = k then (k, v) # d else (k', v') # dict_set d k v)"

definition dict_update :: "dict \<Rightarrow> dict \<Rightarrow> dict" where
  "dict_update d e = fold (\<lambda>(k, v) acc. dict_set acc k v) e d"

text \<open>
  A Python \<^verbatim>\<open>float\<close> is an IEEE 754 binary64 value: a finite value is the rational it
  denotes (the two zeros are not told apart: no operation here depends on the sign of
  zero), \<open>Infinity neg\<close> is the infinity of that sign.
\<close>

datatype pyfloat = Finite rat | Infinity bool | NaN

definition floor_log2 :: "rat \<Rightarrow> int" where
  "floor_log2 x =
     (let (p, q) = quotient_of x;
          d = int (floorlog 2 (nat p)) - int (floorlog 2 (nat q))
      in if 2 powi d \<le> x then d else d - 1)"

definition round_half_even :: "rat \<Rightarrow> int" where
  "round_half_even x =
     (let f = \<lfloor>x\<rfloor>; d = x - of_int f
      in if d < 1 / 2 then f
         else if 1 / 2 < d then f + 1
         else if even f then f else f + 1)"

text \<open>
  Rounding of an exact result to binary64, to nearest with ties to even: 53 significant
  bits, exponents from \<open>-1022\<close> (below: subnormal, spaced \<open>2 powi -1074\<close>), overflow to infinity.
\<close>

definition round_binary64 :: "rat \<Rightarrow> pyfloat" where
  "round_binary64 x =
     (if x = 0 then Finite 0
      else let e = max (floor_log2 \<bar>x\<bar>) (- 1022);
               q = 2 powi (e - 52);
               y = of_int (round_half_even (x / q)) * q
           in if 2 powi 1024 \<le> \<bar>y\<bar> then Infinity (x < 0) else Finite y)"

text \<open>\<^verbatim>\<open>int * float\<close> converts the integer first; the conversion raises where it overflows.\<close>

definition float_of_int :: "int \<Rightarrow> error + pyfloat" where
  "float_of_int n =
     (case round_binary64 (of_int n) of
        Finite y \<Rightarrow> Inr (Finite y)
      | _ \<Rightarrow> Inl OverflowError)"

fun float_mul :: "pyfloat \<Rightarrow> pyfloat \<Rightarrow> pyfloat" where
  "float_mul (Finite a) (Finite b) = round_binary64 (a * b)"
| "float_mul (Finite a) (Infinity neg) =
     (if a = 0 then NaN else Infinity ((a < 0) \<noteq> neg))"
| "float_mul (Infinity neg) (Finite b) =
     (if b = 0 then NaN else Infinity (neg \<noteq> (b < 0)))"
| "float_mul (Infinity n1) (Infinity n2) = Infinity (n1 \<noteq> n2)"
| "float_mul NaN y = NaN"
| "float_mul x NaN = NaN"

text \<open>\<^verbatim>\<open>int(x)\<close> of a float truncates towards zero, and raises on a NaN or an infinity.\<close>

fun int_of_float :: "pyfloat \<Rightarrow> error + int" where
  "int_of_float (Finite x) = Inr (if 0 \<le> x then \<lfloor>x\<rfloor> else \<lceil>x\<rceil>)"
| "int_of_float (Infinity neg) = Inl OverflowError"
| "int_of_float NaN = Inl ValueError"

definition int_mul_float :: "int \<Rightarrow> pyfloat \<Rightarrow> error + pyfloat" where
  "int_mul_float n x =
     (case float_of_int n of Inl e \<Rightarrow> Inl e | Inr y \<Rightarrow> Inr (float_mul y x))"

section \<open>\<^verbatim>\<open>StargateUtils\<close>\<close>

definition estimate_layerzero_swap_fee ::
    "'w EVMNetwork \<Rightarrow> 'w EVMNetwork \<Rightarrow> string \<Rightarrow> ('w, int) prog" where
  "estimate_layerzero_swap_fee src_network dst_network dst_address =
     bind_prog (lift (to_checksum_address (w3 src_network) (stargate_router_address src_network)))
       (\<lambda>contract.
     bind_prog (call (Quote_layerzero_fee contract (stargate_chain_id dst_network) 1 dst_address
                        ''0x'' (0, 0, ''0x''))
                  (quoteLayerZeroFee (w3 src_network) contract (stargate_chain_id dst_network) 1
                     dst_address ''0x'' (0, 0, ''0x'')))
       (\<lambda>quote_data.
     case quote_data of [] \<Rightarrow> raise IndexError | fee # rest \<Rightarrow> ret fee))"

definition estimate_swap_gas_price :: "'w StargateConstants \<Rightarrow> 'w EVMNetwork \<Rightarrow> ('w, int) prog" where
  "estimate_swap_gas_price constants network =
     bind_prog (call Get_approve_gas_limit (get_approve_gas_limit network))
       (\<lambda>approve_gas_limit.
     bind_prog (lift (get_max_randomized_swap_gas_limit constants (name network)))
       (\<lambda>max_limit.
     let max_overall_gas_limit = max_limit + approve_gas_limit in
     bind_prog (call Get_current_gas (get_current_gas network))
       (\<lambda>current_gas.
     let gas_price = max_overall_gas_limit * current_gas in
     ret gas_price)))"

definition is_enough_native_token_balance_for_stargate_swap_fee ::
    "'w StargateConstants \<Rightarrow> 'w EVMNetwork \<Rightarrow> 'w EVMNetwork \<Rightarrow> string \<Rightarrow> ('w, bool) prog" where
  "is_enough_native_token_balance_for_stargate_swap_fee constants src_network dst_network addr =
     bind_prog (call (Get_balance addr) (get_balance src_network addr))
       (\<lambda>account_balance.
     bind_prog (estimate_swap_gas_price constants src_network)
       (\<lambda>gas_price.
     bind_prog (estimate_layerzero_swap_fee src_network dst_network addr)
       (\<lambda>layerzero_fee.
     let enough_native_token_balance = account_balance > (gas_price + layerzero_fee) in
     ret enough_native_token_balance)))"

section \<open>\<^verbatim>\<open>StargateBridgeHelper._check_tx_result\<close>\<close>

definition check_tx_result :: "TransactionStatus \<Rightarrow> string \<Rightarrow> ('w, unit) prog" where
  "check_tx_result result nm =
     (if result = NOT_FOUND then
        raise (TransactionNotFound (nm @ '' transaction can't be found in the blockchain'' @
                                    ''for a log time. Consider changing fee settings''))
      else if result = FAILED then
        raise (TransactionFailed (nm @ '' transaction failed''))
      else if result = SUCCESS then
        info (Message (nm @ '' transaction succeed''))
      else ret ())"

section \<open>\<^verbatim>\<open>StargateBridgeHelper\<close>\<close>

record 'w StargateBridgeHelper =
  account :: LocalAccount
  src_network :: "'w EVMNetwork"
  dst_network :: "'w EVMNetwork"
  src_stablecoin :: Stablecoin
  dst_stablecoin :: Stablecoin
  amount :: int
  slippage :: pyfloat

definition is_bridge_possible :: "'w StargateConstants \<Rightarrow> 'w StargateBridgeHelper \<Rightarrow> ('w, bool) prog" where
  "is_bridge_possible constants h =
     bind_prog (is_enough_native_token_balance_for_stargate_swap_fee constants (src_network h)
                  (dst_network h) (address (account h)))
       (\<lambda>enough.
     if \<not> enough then ret False
     else
     bind_prog (call (Get_token_balance (contract_address (src_stablecoin h)) (address (account h)))
                  (get_token_balance (src_network h) (contract_address (src_stablecoin h))
                     (address (account h))))
       (\<lambda>stablecoin_balance.
     if stablecoin_balance < amount h then ret False
     else ret True))"

definition approve_stablecoin_usage :: "'w StargateBridgeHelper \<Rightarrow> int \<Rightarrow> ('w, unit) prog" where
  "approve_stablecoin_usage h amt =
     bind_prog (call (Get_token_allowance (contract_address (src_stablecoin h)) (address (account h))
                        (stargate_router_address (src_network h)))
                  (get_token_allowance (src_network h) (contract_address (src_stablecoin h))
                     (address (account h)) (stargate_router_address (src_network h))))
       (\<lambda>allowance.
     if allowance \<ge> amt then ret ()
     else
     bind_prog (call (Approve_token_usage (key (account h)) (contract_address (src_stablecoin h))
                        (stargate_router_address (src_network h)) amt)
                  (approve_token_usage (src_network h) (key (account h))
                     (contract_address (src_stablecoin h))
                     (stargate_router_address (src_network h)) amt))
       (\<lambda>tx_hash.
     bind_prog (call (Wait_for_transaction tx_hash) (wait_for_transaction (src_network h) tx_hash))
       (\<lambda>result.
     check_tx_result result (''Approve '' @ symbol (src_stablecoin h) @ '' usage''))))"

text \<open>Line 110: \<^verbatim>\<open>self.amount - int(self.amount * self.slippage)\<close>.\<close>

definition amount_with_slippage :: "int \<Rightarrow> pyfloat \<Rightarrow> error + int" where
  "amount_with_slippage a s =
     (case int_mul_float a s of
        Inl e \<Rightarrow> Inl e
      | Inr x \<Rightarrow> (case int_of_float x of Inl e \<Rightarrow> Inl e | Inr i \<Rightarrow> Inr (a - i)))"

text \<open>
  Follows the spec's words, not the source: \<open>amount_with_slippage = a - floor(a \<sqdot> s)\<close> with
  the exact product of the amount and the value of the slippage.
\<close>

definition amount_with_slippage_spec :: "int \<Rightarrow> rat \<Rightarrow> int" where
  "amount_with_slippage_spec a s = a - \<lfloor>of_int a * s\<rfloor>"

text \<open>
  The transaction that \<^verbatim>\<open>swap(...).build_transaction({...})\<close> builds: the call of the router
  contract and the fields of the dictionary literal, \<^verbatim>\<open>**gas_params\<close> inserted after
  \<^verbatim>\<open>'gas'\<close> and before \<^verbatim>\<open>'nonce'\<close>.
\<close>

definition swap_transaction ::
    "'w StargateBridgeHelper \<Rightarrow> string \<Rightarrow> int \<Rightarrow> int \<Rightarrow> dict \<Rightarrow> int \<Rightarrow> int \<Rightarrow> transaction" where
  "swap_transaction h contract layerzero_fee nonce gas_params min_amount gas =
     \<lparr>tx_to = contract,
      tx_call = Swap (stargate_chain_id (dst_network h))
                     (stargate_pool_id (src_stablecoin h))
                     (stargate_pool_id (dst_stablecoin h))
                     (address (account h))
                     (amount h)
                     min_amount
                     (0, 0, ''0x'')
                     (address (account h))
                     ''0x'',
      tx_fields = dict_set
                    (dict_update [(''from'', Str_val (address (account h))),
                                  (''value'', Int_val layerzero_fee),
                                  (''gas'', Int_val gas)]
                                 gas_params)
                    ''nonce'' (Int_val nonce)\<rparr>"

definition send_swap_transaction ::
    "'w StargateConstants \<Rightarrow> 'w StargateBridgeHelper \<Rightarrow> ('w, string) prog" where
  "send_swap_transaction constants h =
     bind_prog (lift (to_checksum_address (w3 (src_network h))
                        (stargate_router_address (src_network h))))
       (\<lambda>contract.
     bind_prog (estimate_layerzero_swap_fee (src_network h) (dst_network h) (address (account h)))
       (\<lambda>layerzero_fee.
     bind_prog (call (Get_nonce (address (account h)))
                  (get_nonce (src_network h) (address (account h))))
       (\<lambda>nonce.
     bind_prog (call Get_transaction_gas_params (get_transaction_gas_params (src_network h)))
       (\<lambda>gas_params.
     bind_prog (lift (amount_with_slippage (amount h) (slippage h)))
       (\<lambda>min_amount.
     bind_prog (info (Estimated_fees layerzero_fee gas_params))
       (\<lambda>u.
     bind_prog (get_randomized_swap_gas_limit constants (name (src_network h)))
       (\<lambda>gas.
     let tx = swap_transaction h contract layerzero_fee nonce gas_params min_amount gas;
         signed_tx = Signed tx (key (account h)) in
     bind_prog (call (Send_raw_transaction signed_tx)
                  (send_raw_transaction (w3 (src_network h)) signed_tx))
       (\<lambda>tx_hash.
     bind_prog (info (Swap_sent tx_hash))
       (\<lambda>u. ret tx_hash)))))))))"

text \<open>
  \<^verbatim>\<open>make_bridge\<close> returns \<^verbatim>\<open>False\<close> (\<open>Some False\<close>) or falls off its end, which in Python
  returns \<^verbatim>\<open>None\<close> (\<open>None\<close>).
\<close>

definition make_bridge ::
    "'w StargateConstants \<Rightarrow> 'w StargateBridgeHelper \<Rightarrow> ('w, bool option) prog" where
  "make_bridge constants h =
     bind_prog (is_bridge_possible constants h)
       (\<lambda>possible.
     if \<not> possible then ret (Some False)
     else
     bind_prog (approve_stablecoin_usage h (amount h))
       (\<lambda>u.
     bind_prog (send_swap_transaction constants h)
       (\<lambda>tx_hash.
     bind_prog (call (Wait_for_transaction tx_hash)
                  (wait_for_transaction (src_network h) tx_hash))
       (\<lambda>result.
     bind_prog (check_tx_result result ''Stargate swap'')
       (\<lambda>u. ret None)))))"

text \<open>The state-changing transactions a run has submitted so far, in order.\<close>

definition issued :: "'w state \<Rightarrow> event list" where
  "issued s = filter state_changing (calls s)"

section \<open>A concrete network\<close>

text \<open>
  A network whose answers are fixed: the native balance, the stablecoin balance, the
  allowance and the status every transaction is polled with. Its world counts the calls
  it has answered. The router quotes a relay fee of 5; the gas price is 2, the approval
  gas limit 1 and the swap gas limits of \<^verbatim>\<open>Polygon\<close> range from 3 to 4, so that the estimated
  gas cost is 10.
\<close>

definition example_w3 :: "nat Web3" where
  "example_w3 =
     \<lparr>to_checksum_address = (\<lambda>a. Inr a),
      quoteLayerZeroFee = (\<lambda>c chain fn_type dst payload params w. (Inr [5, 0], Suc w)),
      send_raw_transaction = (\<lambda>tx w. (Inr ''0xswap'', Suc w))\<rparr>"

definition example_network :: "int \<Rightarrow> int \<Rightarrow> int \<Rightarrow> TransactionStatus \<Rightarrow> nat EVMNetwork" where
  "example_network bal token_bal allowance status =
     \<lparr>name = ''Polygon'',
      stargate_chain_id = 109,
      stargate_router_address = ''0xrouter'',
      w3 = example_w3,
      get_balance = (\<lambda>a w. (Inr bal, Suc w)),
      get_token_balance = (\<lambda>t a w. (Inr token_bal, Suc w)),
      get_token_allowance = (\<lambda>t owner spender w. (Inr allowance, Suc w)),
      approve_token_usage = (\<lambda>k t spender a w. (Inr ''0xapprove'', Suc w)),
      wait_for_transaction = (\<lambda>tx w. (Inr status, Suc w)),
      get_nonce = (\<lambda>a w. (Inr 7, Suc w)),
      get_transaction_gas_params = (\<lambda>w. (Inr [(''gasPrice'', Int_val 2)], Suc w)),
      get_current_gas = (\<lambda>w. (Inr 2, Suc w)),
      get_approve_gas_limit = (\<lambda>w. (Inr 1, Suc w))\<rparr>"

definition example_dst :: "nat EVMNetwork" where
  "example_dst = (example_network 0 0 0 SUCCESS)\<lparr>name := ''Avalanche'', stargate_chain_id := 106\<rparr>"

definition example_consts :: "nat StargateConstants" where
  "example_consts =
     \<lparr>SWAP_GAS_LIMIT = (\<lambda>n. if n = ''Polygon'' then Some (3, 4) else None),
      random_draw = (\<lambda>w. (w, Suc w))\<rparr>"

definition example_helper :: "nat EVMNetwork \<Rightarrow> int \<Rightarrow> nat StargateBridgeHelper" where
  "example_helper src amt =
     \<lparr>account = \<lparr>address = ''0xsender'', key = ''secret''\<rparr>,
      src_network = src,
      dst_network = example_dst,
      src_stablecoin = \<lparr>contract_address = ''0xusdc'', symbol = ''USDC'', stargate_pool_id = 1\<rparr>,
      dst_stablecoin = \<lparr>contract_address = ''0xusdt'', symbol = ''USDT'', stargate_pool_id = 2\<rparr>,
      amount = amt,
      slippage = Finite (1 / 128)\<rparr>"

definition example_state :: "nat state" where
  "example_state = \<lparr>world = 0, calls = [], logged = []\<rparr>"

text \<open>A network whose balance lookup fails.\<close>

definition unreachable_network :: "nat EVMNetwork" where
  "unreachable_network =
     (example_network 100 50 50 SUCCESS)
       \<lparr>get_balance := (\<lambda>a w. (Inl (External ''connection refused''), w))\<rparr>"

section \<open>Basic facts about the steps\<close>

lemma bind_prog_Inr: "m s = (Inr a, s') \<Longrightarrow> bind_prog m f s = f a s'"
  by (simp add: bind_prog_def)

lemma bind_prog_Inl: "m s = (Inl e, s') \<Longrightarrow> bind_prog m f s = (Inl e, s')"
  by (simp add: bind_prog_def)

lemma bind_prog_ret: "bind_prog (ret a) f s = f a s"
  by (simp add: bind_prog_def ret_def)

lemma bind_prog_raise: "bind_prog (raise e) f s = (Inl e, s)"
  by (simp add: bind_prog_def raise_def)

lemma bind_prog_info: "bind_prog (info m) f s = f () (s\<lparr>logged := logged s @ [m]\<rparr>)"
  by (simp add: bind_prog_def info_def)

lemma bind_prog_lift:
  "bind_prog (lift r) f s = (case r of Inl e \<Rightarrow> (Inl e, s) | Inr a \<Rightarrow> f a s)"
  by (simp add: bind_prog_def lift_def split: sum.splits)

lemma call_eq:
  "f (world s) = (r, w') \<Longrightarrow> call ev f s = (r, s\<lparr>world := w', calls := calls s @ [ev]\<rparr>)"
  by (simp add: call_def)

lemma check_tx_result_NOT_FOUND:
  "check_tx_result NOT_FOUND nm s =
     (Inl (TransactionNotFound (nm @ '' transaction can't be found in the blockchain'' @
                                ''for a log time. Consider changing fee settings'')), s)"
  by (simp add: check_tx_result_def raise_def)

lemma check_tx_result_FAILED:
  "check_tx_result FAILED nm s = (Inl (TransactionFailed (nm @ '' transaction failed'')), s)"
  by (simp add: check_tx_result_def raise_def)

lemma check_tx_result_SUCCESS:
  "check_tx_result SUCCESS nm s =
     (Inr (), s\<lparr>logged := logged s @ [Message (nm @ '' transaction succeed'')]\<rparr>)"
  by (simp add: check_tx_result_def info_def)

lemma check_tx_result_OTHER: "check_tx_result (OTHER n) nm s = (Inr (), s)"
  by (simp add: check_tx_result_def ret_def)

lemma estimate_layerzero_swap_fee_eq:
  assumes "to_checksum_address (w3 src) (stargate_router_address src) = Inr c"
    and "quoteLayerZeroFee (w3 src) c (stargate_chain_id dst) 1 addr ''0x'' (0, 0, ''0x'') (world s)
           = (Inr (fee # rest), w')"
  shows "estimate_layerzero_swap_fee src dst addr s =
           (Inr fee, s\<lparr>world := w',
                        calls := calls s @ [Quote_layerzero_fee c (stargate_chain_id dst) 1 addr
                                              ''0x'' (0, 0, ''0x'')]\<rparr>)"
  using assms
  by (simp add: estimate_layerzero_swap_fee_def bind_prog_def lift_def call_def ret_def)


lemma is_enough_eq:
  assumes "get_balance src addr (world s) = (Inr b, w1)"
    and "estimate_swap_gas_price constants src (s\<lparr>world := w1, calls := calls s @ [Get_balance addr]\<rparr>)
           = (Inr g, s2)"
    and "estimate_layerzero_swap_fee src dst addr s2 = (Inr f, s3)"
  shows "is_enough_native_token_balance_for_stargate_swap_fee constants src dst addr s
           = (Inr (g + f < b), s3)"
  using assms
  by (simp add: is_enough_native_token_balance_for_stargate_swap_fee_def bind_prog_def call_def ret_def)

lemma approve_stablecoin_usage_enough:
  assumes "get_token_allowance (src_network h) (contract_address (src_stablecoin h))
             (address (account h)) (stargate_router_address (src_network h)) (world s)
           = (Inr allowance, wa)"
    and "amt \<le> allowance"
  shows "approve_stablecoin_usage h amt s =
           (Inr (), s\<lparr>world := wa,
                       calls := calls s @ [Get_token_allowance (contract_address (src_stablecoin h))
                                             (address (account h))
                                             (stargate_router_address (src_network h))]\<rparr>)"
  using assms by (simp add: approve_stablecoin_usage_def bind_prog_def call_def ret_def)

lemma approve_stablecoin_usage_submit:
  assumes "get_token_allowance (src_network h) (contract_address (src_stablecoin h))
             (address (account h)) (stargate_router_address (src_network h)) (world s)
           = (Inr allowance, wa)"
    and "allowance < amt"
    and "approve_token_usage (src_network h) (key (account h)) (contract_address (src_stablecoin h))
             (stargate_router_address (src_network h)) amt wa = (Inr tx_hash, wb)"
    and "wait_for_transaction (src_network h) tx_hash wb = (Inr result, wc)"
  shows "approve_stablecoin_usage h amt s =
           check_tx_result result (''Approve '' @ symbol (src_stablecoin h) @ '' usage'')
             (s\<lparr>world := wc,
                 calls := calls s @
                   [Get_token_allowance (contract_address (src_stablecoin h)) (address (account h))
                      (stargate_router_address (src_network h)),
                    Approve_token_usage (key (account h)) (contract_address (src_stablecoin h))
                      (stargate_router_address (src_network h)) amt,
                    Wait_for_transaction tx_hash]\<rparr>)"
  using assms by (simp add: approve_stablecoin_usage_def bind_prog_def call_def ret_def)

lemma make_bridge_rejected_eq:
  assumes "is_bridge_possible constants h s = (Inr False, s1)"
  shows "make_bridge constants h s = (Inr (Some False), s1)"
  using assms by (simp add: make_bridge_def bind_prog_def ret_def)

lemma make_bridge_confirm:
  assumes "is_bridge_possible constants h s = (Inr True, s1)"
    and "approve_stablecoin_usage h (amount h) s1 = (Inr (), s2)"
    and "send_swap_transaction constants h s2 = (Inr tx_hash, s3)"
    and "wait_for_transaction (src_network h) tx_hash (world s3) = (Inr result, wd)"
  shows "make_bridge constants h s =
           (case check_tx_result result ''Stargate swap''
                   (s3\<lparr>world := wd, calls := calls s3 @ [Wait_for_transaction tx_hash]\<rparr>) of
              (Inl e, s') \<Rightarrow> (Inl e, s')
            | (Inr u, s') \<Rightarrow> (Inr None, s'))"
  using assms by (simp add: make_bridge_def bind_prog_def call_def ret_def)

lemma fst_check_tx_result:
  "fst (check_tx_result result nm s) =
     (if result = NOT_FOUND then
        Inl (TransactionNotFound (nm @ '' transaction can't be found in the blockchain'' @
                                  ''for a log time. Consider changing fee settings''))
      else if result = FAILED then Inl (TransactionFailed (nm @ '' transaction failed''))
      else Inr ())"
  by (simp add: check_tx_result_def raise_def info_def ret_def)

lemma issued_bind_prog:
  assumes "\<And>s. issued (snd (m s)) = issued s" and "\<And>a s. issued (snd (f a s)) = issued s"
  shows "issued (snd (bind_prog m f s)) = issued s"
proof (cases "m s")
  case (Pair r s')
  have s': "issued s' = issued s" using assms(1) [of s] Pair by simp
  show ?thesis
  proof (cases r)
    case (Inl e)
    then show ?thesis using Pair s' by (simp add: bind_prog_def)
  next
    case (Inr a)
    then show ?thesis using Pair s' assms(2) [of a s'] by (simp add: bind_prog_def)
  qed
qed

lemma issued_call_read:
  assumes "\<not> state_changing ev"
  shows "issued (snd (call ev f s)) = issued s"
  using assms by (simp add: call_def issued_def split: prod.splits)

lemma issued_ret: "issued (snd (ret a s)) = issued s"
  by (simp add: ret_def)

lemma issued_lift: "issued (snd (lift r s)) = issued s"
  by (simp add: lift_def)

lemma issued_raise: "issued (snd (raise e s)) = issued s"
  by (simp add: raise_def)

lemma issued_info: "issued (snd (info m s)) = issued s"
  by (simp add: info_def issued_def)

lemma issued_estimate_layerzero_swap_fee:
  "issued (snd (estimate_layerzero_swap_fee src dst addr s)) = issued s"
  unfolding estimate_layerzero_swap_fee_def
  by (intro issued_bind_prog issued_call_read issued_lift)
     (simp_all add: issued_ret issued_raise split: list.splits)

lemma issued_estimate_swap_gas_price:
  "issued (snd (estimate_swap_gas_price constants network s)) = issued s"
  unfolding estimate_swap_gas_price_def Let_def
  by (intro issued_bind_prog issued_call_read issued_lift issued_ret) simp_all

lemma issued_is_enough:
  "issued (snd (is_enough_native_token_balance_for_stargate_swap_fee constants src dst addr s))
     = issued s"
  unfolding is_enough_native_token_balance_for_stargate_swap_fee_def Let_def
  by (intro issued_bind_prog issued_call_read issued_estimate_swap_gas_price
        issued_estimate_layerzero_swap_fee issued_ret) simp

lemma issued_is_bridge_possible:
  "issued (snd (is_bridge_possible constants h s)) = issued s"
proof -
  have "issued (snd ((if \<not> enough then ret False
     else
     bind_prog (call (Get_token_balance (contract_address (src_stablecoin h)) (address (account h)))
                  (get_token_balance (src_network h) (contract_address (src_stablecoin h))
                     (address (account h))))
       (\<lambda>stablecoin_balance.
     if stablecoin_balance < amount h then ret False
     else ret True)) t)) = issued t" for enough t
    by (cases enough) (simp_all add: issued_ret issued_bind_prog issued_call_read)
  then show ?thesis
    unfolding is_bridge_possible_def
    by (intro issued_bind_prog issued_is_enough)
qed

lemma is_bridge_possible_not_enough:
  assumes "is_enough_native_token_balance_for_stargate_swap_fee constants (src_network h)
             (dst_network h) (address (account h)) s = (Inr False, s1)"
  shows "is_bridge_possible constants h s = (Inr False, s1)"
  using assms by (simp add: is_bridge_possible_def bind_prog_def ret_def)

lemma is_bridge_possible_enough:
  assumes "is_enough_native_token_balance_for_stargate_swap_fee constants (src_network h)
             (dst_network h) (address (account h)) s = (Inr True, s1)"
    and "get_token_balance (src_network h) (contract_address (src_stablecoin h))
           (address (account h)) (world s1) = (Inr stablecoin_balance, wb)"
  shows "is_bridge_possible constants h s =
           (Inr (\<not> stablecoin_balance < amount h),
            s1\<lparr>world := wb,
                calls := calls s1 @ [Get_token_balance (contract_address (src_stablecoin h))
                                       (address (account h))]\<rparr>)"
  using assms by (simp add: is_bridge_possible_def bind_prog_def call_def ret_def)

lemma make_bridge_value:
  assumes "fst (make_bridge constants h s) = Inr v"
  shows "(v = Some False \<and> fst (is_bridge_possible constants h s) = Inr False) \<or>
         (v = None \<and> fst (is_bridge_possible constants h s) = Inr True)"
  using assms
  by (auto simp: make_bridge_def bind_prog_def ret_def split: prod.splits sum.splits if_splits)

lemma approve_stablecoin_usage_issued:
  assumes "get_token_allowance (src_network h) (contract_address (src_stablecoin h))
             (address (account h)) (stargate_router_address (src_network h)) (world s)
           = (Inr allowance, wa)"
    and "allowance < amt"
  shows "issued (snd (approve_stablecoin_usage h amt s)) =
           issued s @ [Approve_token_usage (key (account h)) (contract_address (src_stablecoin h))
                         (stargate_router_address (src_network h)) amt]"
  using assms
  by (simp add: approve_stablecoin_usage_def bind_prog_def call_def check_tx_result_def
        raise_def info_def ret_def issued_def split: prod.splits sum.splits)

lemma approve_stablecoin_usage_waits:
  assumes "get_token_allowance (src_network h) (contract_address (src_stablecoin h))
             (address (account h)) (stargate_router_address (src_network h)) (world s)
           = (Inr allowance, wa)"
    and "allowance < amt"
    and "approve_token_usage (src_network h) (key (account h)) (contract_address (src_stablecoin h))
             (stargate_router_address (src_network h)) amt wa = (Inr tx_hash, wb)"
  shows "calls (snd (approve_stablecoin_usage h amt s)) =
           calls s @
             [Get_token_allowance (contract_address (src_stablecoin h)) (address (account h))
                (stargate_router_address (src_network h)),
              Approve_token_usage (key (account h)) (contract_address (src_stablecoin h))
                (stargate_router_address (src_network h)) amt,
              Wait_for_transaction tx_hash]"
  using assms
  by (simp add: approve_stablecoin_usage_def bind_prog_def call_def check_tx_result_def
        raise_def info_def ret_def split: prod.splits sum.splits)








section \<open>Facts about the float model\<close>

lemma two_powi_pos: "(0::rat) < 2 powi k"
  by (simp add: power_int_def)

lemma two_powi_less_cancel:
  assumes "(2::rat) powi a < 2 powi b"
  shows "a < b"
proof (rule ccontr)
  assume "\<not> a < b"
  then have "b \<le> a" by simp
  then have "(2::rat) powi b \<le> 2 powi a" by (intro power_int_increasing) simp_all
  with assms show False by simp
qed

lemma floor_log2_window:
  assumes "0 < x"
  shows "2 powi (floor_log2 x) \<le> x \<and> x < 2 powi (floor_log2 x + 1)"
proof -
  obtain p q where pq: "quotient_of x = (p, q)" by (cases "quotient_of x")
  have q: "0 < q" using pq by (rule quotient_of_denom_pos)
  have x: "x = of_int p / of_int q" using pq by (rule quotient_of_div)
  have p: "0 < p" using assms q x by (simp add: zero_less_divide_iff)
  define bp where "bp = floorlog 2 (nat p)"
  define bq where "bq = floorlog 2 (nat q)"
  define d where "d = int bp - int bq"
  have bp: "2 ^ (bp - 1) \<le> nat p \<and> nat p < 2 ^ bp"
    unfolding bp_def using p by (intro floorlog_bounds) simp_all
  have bq: "2 ^ (bq - 1) \<le> nat q \<and> nat q < 2 ^ bq"
    unfolding bq_def using q by (intro floorlog_bounds) simp_all
  have bp1: "1 \<le> bp" using bp p by (cases bp) auto
  have bq1: "1 \<le> bq" using bq q by (cases bq) auto
  have P1: "(2::rat) ^ (bp - 1) \<le> of_int p"
  proof -
    have "int (2 ^ (bp - 1)) \<le> int (nat p)" using bp by (simp only: of_nat_le_iff)
    then have "(2::int) ^ (bp - 1) \<le> p" using p by simp
    then have "(of_int ((2::int) ^ (bp - 1)) :: rat) \<le> of_int p" by (simp only: of_int_le_iff)
    then show ?thesis by simp
  qed
  have P2: "of_int p < (2::rat) ^ bp"
  proof -
    have "int (nat p) < int (2 ^ bp)" using bp by (simp only: of_nat_less_iff)
    then have "p < (2::int) ^ bp" using p by simp
    then have "(of_int p :: rat) < of_int ((2::int) ^ bp)" by (simp only: of_int_less_iff)
    then show ?thesis by simp
  qed
  have Q1: "(2::rat) ^ (bq - 1) \<le> of_int q"
  proof -
    have "int (2 ^ (bq - 1)) \<le> int (nat q)" using bq by (simp only: of_nat_le_iff)
    then have "(2::int) ^ (bq - 1) \<le> q" using q by simp
    then have "(of_int ((2::int) ^ (bq - 1)) :: rat) \<le> of_int q" by (simp only: of_int_le_iff)
    then show ?thesis by simp
  qed
  have Q2: "of_int q < (2::rat) ^ bq"
  proof -
    have "int (nat q) < int (2 ^ bq)" using bq by (simp only: of_nat_less_iff)
    then have "q < (2::int) ^ bq" using q by simp
    then have "(of_int q :: rat) < of_int ((2::int) ^ bq)" by (simp only: of_int_less_iff)
    then show ?thesis by simp
  qed
  have qpos: "(0::rat) < of_int q" using q by simp
  have ppos: "(0::rat) < of_int p" using p by simp
  have dm: "(2::rat) powi (d - 1) = 2 ^ (bp - 1) / 2 ^ bq"
  proof -
    have "d - 1 = int (bp - 1) - int bq" using bp1 by (simp add: d_def)
    then show ?thesis by (simp add: power_int_diff)
  qed
  have dp: "(2::rat) powi (d + 1) = 2 ^ bp / 2 ^ (bq - 1)"
  proof -
    have "d + 1 = int bp - int (bq - 1)" using bq1 by (simp add: d_def)
    then show ?thesis by (simp add: power_int_diff)
  qed
  have lo: "2 powi (d - 1) < x"
  proof -
    have "(2::rat) ^ (bp - 1) / 2 ^ bq < 2 ^ (bp - 1) / of_int q"
      using Q2 qpos by (intro divide_strict_left_mono) (simp_all add: mult_pos_pos)
    also have "\<dots> \<le> of_int p / of_int q"
      using P1 qpos by (intro divide_right_mono) simp_all
    finally show ?thesis using dm x by simp
  qed
  have hi: "x < 2 powi (d + 1)"
  proof -
    have "of_int p / of_int q < (2::rat) ^ bp / of_int q"
      using P2 qpos by (intro divide_strict_right_mono) simp_all
    also have "\<dots> \<le> 2 ^ bp / 2 ^ (bq - 1)"
      using Q1 qpos by (intro divide_left_mono) (simp_all add: mult_pos_pos)
    finally show ?thesis using dp x by simp
  qed
  have fl: "floor_log2 x = (if 2 powi d \<le> x then d else d - 1)"
    by (simp add: floor_log2_def pq Let_def bp_def bq_def d_def)
  show ?thesis
  proof (cases "2 powi d \<le> x")
    case True
    then show ?thesis using fl hi by simp
  next
    case False
    then have "x < 2 powi d" by simp
    then show ?thesis using fl lo False by simp
  qed
qed

lemma floor_log2_eqI:
  assumes "2 powi e \<le> x" and "x < 2 powi (e + 1)"
  shows "floor_log2 x = e"
proof -
  have x: "0 < x" using assms(1) two_powi_pos [of e] by (rule less_le_trans [rotated])
  let ?f = "floor_log2 x"
  have w: "2 powi ?f \<le> x \<and> x < 2 powi (?f + 1)" using x by (rule floor_log2_window)
  have "(2::rat) powi e < 2 powi (?f + 1)" using assms(1) w by simp
  then have a: "e < ?f + 1" by (rule two_powi_less_cancel)
  have "(2::rat) powi ?f < 2 powi (e + 1)" using assms(2) w by simp
  then have b: "?f < e + 1" by (rule two_powi_less_cancel)
  from a b show ?thesis by simp
qed

lemma round_binary64_normal:
  assumes "2 powi e \<le> \<bar>x\<bar>" and "\<bar>x\<bar> < 2 powi (e + 1)" and "- 1022 \<le> e"
    and "y = of_int (round_half_even (x / 2 powi (e - 52))) * 2 powi (e - 52)"
    and "\<bar>y\<bar> < 2 powi 1024"
  shows "round_binary64 x = Finite y"
proof -
  have fl: "floor_log2 \<bar>x\<bar> = e" using assms(1,2) by (rule floor_log2_eqI)
  have "0 < \<bar>x\<bar>" using assms(1) two_powi_pos [of e] by (rule less_le_trans [rotated])
  then have nz: "x \<noteq> 0" by simp
  have m: "max e (- 1022) = e" using assms(3) by simp
  show ?thesis
    unfolding round_binary64_def Let_def fl m using nz assms(4,5)
    by (simp only: if_False not_le [symmetric])
qed

lemma floor_rat_numeral_div:
  "\<lfloor>numeral a / numeral b :: rat\<rfloor> = numeral a div numeral b"
  by (metis floor_divide_of_int_eq of_int_numeral)

lemma amount_with_slippage_example: "amount_with_slippage 50 (Finite (1 / 128)) = Inr 50"
proof -
  have a: "round_binary64 50 = Finite 50"
    by (rule round_binary64_normal [where e = 5]) (simp_all add: round_half_even_def)
  have b: "round_binary64 (50 * (1 / 128)) = Finite (25 / 64)"
    by (rule round_binary64_normal [where e = "- 2"]) (simp_all add: round_half_even_def)
  show ?thesis
    using a b by (simp add: amount_with_slippage_def int_mul_float_def float_of_int_def floor_rat_numeral_div)
qed


lemma round_half_even_cases:
  "round_half_even x = \<lfloor>x\<rfloor> \<and> x - of_int \<lfloor>x\<rfloor> \<le> 1 / 2 \<or>
   round_half_even x = \<lfloor>x\<rfloor> + 1 \<and> 1 / 2 \<le> x - of_int \<lfloor>x\<rfloor>"
  by (auto simp: round_half_even_def Let_def)

lemma round_half_even_ge_floor: "\<lfloor>x\<rfloor> \<le> round_half_even x"
  using round_half_even_cases [of x] by auto

lemma round_half_even_le_floor: "round_half_even x \<le> \<lfloor>x\<rfloor> + 1"
  using round_half_even_cases [of x] by auto

lemma round_half_even_nonneg:
  assumes "0 \<le> x"
  shows "0 \<le> round_half_even x"
proof -
  have "0 \<le> \<lfloor>x\<rfloor>" using assms by simp
  then show ?thesis using round_half_even_ge_floor [of x] by (rule order_trans)
qed

lemma round_half_even_lt_half:
  assumes "x < of_int m + 1 / 2"
  shows "round_half_even x \<le> m"
proof -
  have "x < of_int (m + 1)" using assms by simp
  then have "\<lfloor>x\<rfloor> < m + 1" by (simp only: floor_less_iff)
  then have f: "\<lfloor>x\<rfloor> \<le> m" by simp
  show ?thesis
  proof (cases "\<lfloor>x\<rfloor> = m")
    case True
    then have "x - of_int \<lfloor>x\<rfloor> < 1 / 2" using assms by simp
    then show ?thesis using round_half_even_cases [of x] True by auto
  next
    case False
    then have "\<lfloor>x\<rfloor> + 1 \<le> m" using f by simp
    then show ?thesis using round_half_even_le_floor [of x] by simp
  qed
qed

lemma round_half_even_le_int:
  assumes "x \<le> of_int m"
  shows "round_half_even x \<le> m"
proof -
  have "x < of_int m + 1 / 2" using assms by simp
  then show ?thesis by (rule round_half_even_lt_half)
qed

lemma round_half_even_of_int: "round_half_even (of_int m) = m"
  by (simp add: round_half_even_def)


lemma two_powi_quantum:
  "(2::rat) powi (e - 52) * 2 ^ 52 = 2 powi e"
  "(2::rat) powi (e - 52) * 2 ^ 53 = 2 powi (e + 1)"
proof -
  have "(2::rat) powi ((e - 52) + 52) = 2 powi (e - 52) * 2 powi 52"
    by (rule power_int_add) simp
  then show "(2::rat) powi (e - 52) * 2 ^ 52 = 2 powi e" by simp
  have "(2::rat) powi ((e - 52) + 53) = 2 powi (e - 52) * 2 powi 53"
    by (rule power_int_add) simp
  moreover have "(e - 52) + 53 = e + 1" by simp
  ultimately show "(2::rat) powi (e - 52) * 2 ^ 53 = 2 powi (e + 1)" by simp
qed

lemma two_powi_mono: "a \<le> b \<Longrightarrow> (2::rat) powi a \<le> 2 powi b"
  by (rule power_int_increasing) simp_all

lemma round_binary64_pos:
  assumes "0 < z"
    and "e = max (floor_log2 z) (- 1022)"
    and "y = of_int (round_half_even (z / 2 powi (e - 52))) * 2 powi (e - 52)"
  shows "round_binary64 z = (if 2 powi 1024 \<le> y then Infinity False else Finite y)"
    and "0 \<le> y"
proof -
  have q: "(0::rat) < 2 powi (e - 52)" by (rule two_powi_pos)
  have "0 \<le> z / 2 powi (e - 52)" using assms(1) q by simp
  then have "0 \<le> round_half_even (z / 2 powi (e - 52))" by (rule round_half_even_nonneg)
  then show y: "0 \<le> y" using q assms(3) by simp
  have a: "\<bar>z\<bar> = z" using assms(1) by simp
  have "\<not> z < 0" and "z \<noteq> 0" using assms(1) by simp_all
  then show "round_binary64 z = (if 2 powi 1024 \<le> y then Infinity False else Finite y)"
    using y assms(2,3) by (simp add: round_binary64_def Let_def a)
qed


lemma float_product_le:
  assumes a: "0 < a"
    and fa: "round_binary64 (of_int a) = Finite x"
    and r0: "0 < r"
    and r1: "r \<le> 1 - 1 / 2 ^ 53"
  shows "\<exists>y. round_binary64 (x * r) = Finite y \<and> 0 \<le> y \<and> y \<le> of_int a"
proof -
  define E where "E = floor_log2 (of_int a)"
  define Q :: rat where "Q = 2 powi (E - 52)"
  define k where "k = \<lfloor>of_int a / Q\<rfloor>"
  define n where "n = round_half_even (of_int a / Q)"
  have apos: "(0::rat) < of_int a" using a by simp
  have Ew: "2 powi E \<le> (of_int a :: rat) \<and> (of_int a :: rat) < 2 powi (E + 1)"
    unfolding E_def using apos by (rule floor_log2_window)
  have a1: "(1::rat) \<le> of_int a" using a by (simp add: int_one_le_iff_zero_less)
  have "(2::rat) powi 0 < 2 powi (E + 1)" using a1 Ew by simp
  then have "0 < E + 1" by (rule two_powi_less_cancel)
  then have E0: "0 \<le> E" by simp
  have Qpos: "0 < Q" unfolding Q_def by (rule two_powi_pos)
  have Q52: "Q * 2 ^ 52 = 2 powi E" and Q53: "Q * 2 ^ 53 = 2 powi (E + 1)"
    unfolding Q_def by (rule two_powi_quantum)+
  have mE: "max E (- 1022) = E" using E0 by simp
  \<comment> \<open>the float of the amount\<close>
  have x: "x = of_int n * Q"
  proof -
    have nz: "(of_int a :: rat) \<noteq> 0" using apos by simp
    have ab: "\<bar>of_int a :: rat\<bar> = of_int a" using apos by simp
    show ?thesis
      using fa nz by (simp add: round_binary64_def Let_def ab E_def [symmetric] mE
          Q_def [symmetric] n_def [symmetric] split: if_splits)
  qed
  have xfin: "\<bar>x\<bar> < 2 powi 1024"
  proof -
    have nz: "(of_int a :: rat) \<noteq> 0" using apos by simp
    have ab: "\<bar>of_int a :: rat\<bar> = of_int a" using apos by simp
    show ?thesis
      using fa nz by (simp add: round_binary64_def Let_def ab E_def [symmetric] mE
          Q_def [symmetric] n_def [symmetric] split: if_splits)
  qed
  \<comment> \<open>the grid point below the amount\<close>
  have kle: "of_int k * Q \<le> of_int a"
  proof -
    have "of_int k \<le> of_int a / Q" unfolding k_def by (rule of_int_floor_le)
    then show ?thesis using Qpos by (simp add: pos_le_divide_eq)
  qed
  have k52: "2 ^ 52 \<le> k"
  proof -
    have "Q * 2 ^ 52 \<le> of_int a" using Ew Q52 by simp
    then have "of_int (2 ^ 52) \<le> of_int a / Q" using Qpos by (simp add: pos_le_divide_eq mult.commute)
    then show ?thesis unfolding k_def by (simp only: le_floor_iff)
  qed
  have k53: "k + 1 \<le> 2 ^ 53"
  proof -
    have "of_int a < Q * 2 ^ 53" using Ew Q53 by simp
    then have "of_int a / Q < of_int (2 ^ 53)" using Qpos by (simp add: pos_divide_less_eq mult.commute)
    then have "k < 2 ^ 53" unfolding k_def by (simp only: floor_less_iff)
    then show ?thesis by simp
  qed
  have nk: "k \<le> n" unfolding n_def k_def by (rule round_half_even_ge_floor)
  have nk1: "n \<le> k + 1" unfolding n_def k_def by (rule round_half_even_le_floor)
  have kpos: "0 < k" using k52 by (rule less_le_trans [rotated]) simp
  have npos: "0 < n" using kpos nk by simp
  have xpos: "0 < x" using x npos Qpos by simp
  define z where "z = x * r"
  have zpos: "0 < z" unfolding z_def using xpos r0 by simp
  \<comment> \<open>the exact product stays below the midpoint above that grid point\<close>
  have zlt: "z < (of_int k + 1 / 2) * Q"
  proof -
    have "z \<le> x * (1 - 1 / 2 ^ 53)" unfolding z_def using r1 xpos by simp
    also have "\<dots> = of_int n * (1 - 1 / 2 ^ 53) * Q" using x by simp
    also have "\<dots> \<le> (of_int k + 1) * (1 - 1 / 2 ^ 53) * Q"
    proof -
      have "(of_int n :: rat) \<le> of_int k + 1" using nk1 by (metis of_int_1 of_int_add of_int_le_iff)
      then have "of_int n * (1 - 1 / 2 ^ 53 :: rat) \<le> (of_int k + 1) * (1 - 1 / 2 ^ 53)"
        by (rule mult_right_mono) simp
      then show ?thesis using Qpos by (simp only: mult_le_cancel_right_pos)
    qed
    also have "\<dots> < (of_int k + 1 / 2) * Q"
    proof -
      have "(2::rat) ^ 52 \<le> of_int k" using k52 by (metis of_int_le_iff of_int_numeral of_int_power)
      then have "(of_int k + 1) * (1 - 1 / 2 ^ 53 :: rat) < of_int k + 1 / 2"
        by (simp add: field_simps)
      then show ?thesis using Qpos by (simp only: mult_less_cancel_right_pos)
    qed
    finally show ?thesis .
  qed
  have ztop: "z < 2 powi (E + 1)"
  proof -
    have "(of_int k + 1 / 2 :: rat) \<le> of_int (k + 1)" by simp
    also have "\<dots> \<le> of_int (2 ^ 53)" using k53 by (simp only: of_int_le_iff)
    finally have "(of_int k + 1 / 2) * Q \<le> 2 ^ 53 * Q" using Qpos by simp
    then show ?thesis using zlt Q53 by (simp add: mult.commute)
  qed
  define e where "e = max (floor_log2 z) (- 1022)"
  define q :: rat where "q = 2 powi (e - 52)"
  define y where "y = of_int (round_half_even (z / q)) * q"
  have qpos: "0 < q" unfolding q_def by (rule two_powi_pos)
  have zw: "2 powi (floor_log2 z) \<le> z \<and> z < 2 powi (floor_log2 z + 1)"
    using zpos by (rule floor_log2_window)
  have "(2::rat) powi (floor_log2 z) < 2 powi (E + 1)" using zw ztop by simp
  then have "floor_log2 z < E + 1" by (rule two_powi_less_cancel)
  then have eE: "e \<le> E" unfolding e_def using E0 by simp
  have ze: "z < 2 powi (e + 1)"
  proof -
    have "floor_log2 z + 1 \<le> e + 1" unfolding e_def by simp
    then have "(2::rat) powi (floor_log2 z + 1) \<le> 2 powi (e + 1)" by (rule two_powi_mono)
    then show ?thesis using zw by simp
  qed
  have q53: "q * 2 ^ 53 = 2 powi (e + 1)" unfolding q_def by (rule two_powi_quantum)
  \<comment> \<open>so the product rounds to that grid point or below\<close>
  have yle: "y \<le> of_int k * Q"
  proof (cases "e = E")
    case True
    then have qQ: "q = Q" by (simp add: q_def Q_def)
    have "z / Q < of_int k + 1 / 2" using zlt Qpos by (simp add: pos_divide_less_eq)
    then have "round_half_even (z / Q) \<le> k" by (rule round_half_even_lt_half)
    then have "(of_int (round_half_even (z / Q)) :: rat) \<le> of_int k" by (simp only: of_int_le_iff)
    then show ?thesis unfolding y_def qQ using Qpos by (simp only: mult_le_cancel_right_pos)
  next
    case False
    then have "e + 1 \<le> E" using eE by simp
    then have top: "(2::rat) powi (e + 1) \<le> 2 powi E" by (rule two_powi_mono)
    have "z < q * 2 ^ 53" using ze q53 by simp
    then have "z / q \<le> of_int (2 ^ 53)" using qpos by (simp add: pos_divide_le_eq mult.commute)
    then have "round_half_even (z / q) \<le> 2 ^ 53" by (rule round_half_even_le_int)
    then have "(of_int (round_half_even (z / q)) :: rat) \<le> of_int (2 ^ 53)"
      by (simp only: of_int_le_iff)
    then have "y \<le> of_int (2 ^ 53) * q" unfolding y_def using qpos
      by (simp only: mult_le_cancel_right_pos)
    also have "\<dots> = 2 powi (e + 1)" using q53 by (simp add: mult.commute)
    also have "\<dots> \<le> 2 powi E" by (rule top)
    also have "\<dots> = of_int (2 ^ 52) * Q" using Q52 by (simp add: mult.commute)
    also have "\<dots> \<le> of_int k * Q"
    proof -
      have "(of_int (2 ^ 52) :: rat) \<le> of_int k" using k52 by (simp only: of_int_le_iff)
      then show ?thesis using Qpos by (simp only: mult_le_cancel_right_pos)
    qed
    finally show ?thesis .
  qed
  have r: "round_binary64 z = (if 2 powi 1024 \<le> y then Infinity False else Finite y)"
    and y0: "0 \<le> y"
    using zpos e_def y_def [unfolded q_def] by (rule round_binary64_pos)+
  have "of_int k * Q \<le> of_int n * Q"
  proof -
    have "(of_int k :: rat) \<le> of_int n" using nk by (simp only: of_int_le_iff)
    then show ?thesis using Qpos by (simp only: mult_le_cancel_right_pos)
  qed
  then have "y \<le> x" using yle x by simp
  then have "y < 2 powi 1024" using xfin by simp
  then have "round_binary64 z = Finite y" using r by simp
  then show ?thesis using y0 yle kle unfolding z_def by auto
qed


lemma binary64_below_one:
  assumes "round_binary64 r = Finite r" and "0 < r" and "r < 1"
  shows "r \<le> 1 - 1 / 2 ^ 53"
proof -
  define e where "e = max (floor_log2 r) (- 1022)"
  define y :: rat where "y = of_int (round_half_even (r / 2 powi (e - 52))) * 2 powi (e - 52)"
  have rw: "2 powi (floor_log2 r) \<le> r \<and> r < 2 powi (floor_log2 r + 1)"
    using assms(2) by (rule floor_log2_window)
  have "(2::rat) powi (floor_log2 r) < 2 powi 0" using rw assms(3) by simp
  then have f: "floor_log2 r < 0" by (rule two_powi_less_cancel)
  have "round_binary64 r = (if 2 powi 1024 \<le> y then Infinity False else Finite y)"
    using assms(2) e_def y_def by (rule round_binary64_pos)
  then have ry: "r = y" using assms(1) by (simp split: if_splits)
  show ?thesis
  proof (cases "floor_log2 r = - 1")
    case True
    then have e: "e = - 1" by (simp add: e_def)
    define N where "N = round_half_even (r / 2 powi (e - 52))"
    have q: "(2::rat) powi (e - 52) = 1 / 2 ^ 53" using e by (simp add: power_int_minus_divide)
    have rN: "r = of_int N / 2 ^ 53" using ry y_def N_def q by simp
    then have "(of_int N :: rat) < of_int (2 ^ 53)" using assms(3) by simp
    then have "N < 2 ^ 53" by (simp only: of_int_less_iff)
    then have "N \<le> 2 ^ 53 - 1" by simp
    then have "(of_int N :: rat) \<le> of_int (2 ^ 53 - 1)" by (simp only: of_int_le_iff)
    then have "(of_int N :: rat) / 2 ^ 53 \<le> of_int (2 ^ 53 - 1) / 2 ^ 53"
      by (rule divide_right_mono) simp
    then show ?thesis using rN by simp
  next
    case False
    then have "floor_log2 r + 1 \<le> - 1" using f by simp
    then have "(2::rat) powi (floor_log2 r + 1) \<le> 2 powi (- 1)" by (rule two_powi_mono)
    then have "r < 2 powi (- 1)" using rw by simp
    then show ?thesis by (simp add: power_int_minus_divide)
  qed
qed

lemma amount_with_slippage_three_tenths:
  "amount_with_slippage 10 (Finite (5404319552844595 / 18014398509481984)) = Inr 7 \<and>
   amount_with_slippage_spec 10 (5404319552844595 / 18014398509481984) = 8"
proof -
  have a: "round_binary64 10 = Finite 10"
    by (rule round_binary64_normal [where e = 3]) (simp_all add: round_half_even_def)
  have b: "round_binary64 (10 * (5404319552844595 / 18014398509481984)) = Finite 3"
    by (rule round_binary64_normal [where e = 1])
       (simp_all add: round_half_even_def power_int_minus_divide floor_rat_numeral_div)
  have c: "amount_with_slippage 10 (Finite (5404319552844595 / 18014398509481984)) = Inr 7"
    using a b by (simp add: amount_with_slippage_def int_mul_float_def float_of_int_def)
  have d: "amount_with_slippage_spec 10 (5404319552844595 / 18014398509481984) = 8"
    by (simp add: amount_with_slippage_spec_def floor_rat_numeral_div)
  show ?thesis using c d by simp
qed

section \<open>Evaluation of the concrete network\<close>

lemmas prog_defs =
  make_bridge_def is_bridge_possible_def approve_stablecoin_usage_def send_swap_transaction_def
  swap_transaction_def check_tx_result_def
  is_enough_native_token_balance_for_stargate_swap_fee_def estimate_swap_gas_price_def
  estimate_layerzero_swap_fee_def get_max_randomized_swap_gas_limit_def
  get_randomized_swap_gas_limit_def dict_update_def
  bind_prog_def call_def ret_def raise_def lift_def info_def

lemmas example_defs =
  example_w3_def example_network_def example_dst_def example_consts_def example_helper_def
  example_state_def unreachable_network_def

section \<open>The claims\<close>

text \<open>
  C4. The result check raises \<open>TransactionNotFound\<close> exactly when the polled status is
  \<open>NOT_FOUND\<close>, raises \<open>TransactionFailed\<close> exactly when it is \<open>FAILED\<close> (two distinct
  errors), and completes without raising on \<open>SUCCESS\<close>. The approval step and the swap
  confirmation both pass the status they polled to this check: an approval that was
  submitted ends as the check does on its status, and so does \<^verbatim>\<open>make_bridge\<close> once the swap
  was submitted.
\<close>

theorem check_tx_result_raises:
  "((\<exists>m. fst (check_tx_result result nm s) = Inl (TransactionNotFound m)) \<longleftrightarrow> result = NOT_FOUND) \<and>
   ((\<exists>m. fst (check_tx_result result nm s) = Inl (TransactionFailed m)) \<longleftrightarrow> result = FAILED) \<and>
   (result = SUCCESS \<longrightarrow> fst (check_tx_result result nm s) = Inr ()) \<and>
   (get_token_allowance (src_network h) (contract_address (src_stablecoin h))
        (address (account h)) (stargate_router_address (src_network h)) (world s) = (Inr allowance, wa) \<and>
    allowance < amt \<and>
    approve_token_usage (src_network h) (key (account h)) (contract_address (src_stablecoin h))
        (stargate_router_address (src_network h)) amt wa = (Inr approve_hash, wb) \<and>
    wait_for_transaction (src_network h) approve_hash wb = (Inr result, wc) \<longrightarrow>
    fst (approve_stablecoin_usage h amt s) =
      fst (check_tx_result result (''Approve '' @ symbol (src_stablecoin h) @ '' usage'') s)) \<and>
   (is_bridge_possible constants h s = (Inr True, s1) \<and>
    approve_stablecoin_usage h (amount h) s1 = (Inr (), s2) \<and>
    send_swap_transaction constants h s2 = (Inr swap_hash, s3) \<and>
    wait_for_transaction (src_network h) swap_hash (world s3) = (Inr result, wd) \<longrightarrow>
    fst (make_bridge constants h s) =
      (case fst (check_tx_result result ''Stargate swap'' s) of
         Inl e \<Rightarrow> Inl e | Inr u \<Rightarrow> Inr None))"
proof (intro conjI impI)
  show "(\<exists>m. fst (check_tx_result result nm s) = Inl (TransactionNotFound m)) \<longleftrightarrow> result = NOT_FOUND"
    by (simp add: fst_check_tx_result)
  show "(\<exists>m. fst (check_tx_result result nm s) = Inl (TransactionFailed m)) \<longleftrightarrow> result = FAILED"
    by (simp add: fst_check_tx_result)
  show "fst (check_tx_result result nm s) = Inr ()" if "result = SUCCESS"
    using that by (simp add: fst_check_tx_result)
next
  assume a: "get_token_allowance (src_network h) (contract_address (src_stablecoin h))
        (address (account h)) (stargate_router_address (src_network h)) (world s) = (Inr allowance, wa) \<and>
    allowance < amt \<and>
    approve_token_usage (src_network h) (key (account h)) (contract_address (src_stablecoin h))
        (stargate_router_address (src_network h)) amt wa = (Inr approve_hash, wb) \<and>
    wait_for_transaction (src_network h) approve_hash wb = (Inr result, wc)"
  then show "fst (approve_stablecoin_usage h amt s) =
      fst (check_tx_result result (''Approve '' @ symbol (src_stablecoin h) @ '' usage'') s)"
    using approve_stablecoin_usage_submit [where h = h and s = s and allowance = allowance and
        wa = wa and amt = amt and tx_hash = approve_hash and wb = wb and result = result and
        wc = wc]
    by (simp add: fst_check_tx_result)
next
  assume a: "is_bridge_possible constants h s = (Inr True, s1) \<and>
    approve_stablecoin_usage h (amount h) s1 = (Inr (), s2) \<and>
    send_swap_transaction constants h s2 = (Inr swap_hash, s3) \<and>
    wait_for_transaction (src_network h) swap_hash (world s3) = (Inr result, wd)"
  then show "fst (make_bridge constants h s) =
      (case fst (check_tx_result result ''Stargate swap'' s) of
         Inl e \<Rightarrow> Inl e | Inr u \<Rightarrow> Inr None)"
    using make_bridge_confirm [where constants = constants and h = h and s = s and ?s1.0 = s1 and
        ?s2.0 = s2 and tx_hash = swap_hash and ?s3.0 = s3 and result = result and wd = wd]
    by (simp add: check_tx_result_def raise_def info_def ret_def)
qed

theorem check_tx_result_raises_witness:
  "fst (approve_stablecoin_usage (example_helper (example_network 100 50 40 FAILED) 50) 50
          example_state)
     = Inl (TransactionFailed ''Approve USDC usage transaction failed'') \<and>
   fst (make_bridge example_consts (example_helper (example_network 100 50 50 NOT_FOUND) 50)
          example_state)
     = Inl (TransactionNotFound (''Stargate swap transaction can't be found in the blockchain'' @
                                 ''for a log time. Consider changing fee settings''))"
proof
  let ?h = "example_helper (example_network 100 50 40 FAILED) 50"
  have a: "get_token_allowance (src_network ?h) (contract_address (src_stablecoin ?h))
        (address (account ?h)) (stargate_router_address (src_network ?h)) (world example_state)
        = (Inr 40, 1) \<and>
    (40::int) < 50 \<and>
    approve_token_usage (src_network ?h) (key (account ?h)) (contract_address (src_stablecoin ?h))
        (stargate_router_address (src_network ?h)) 50 1 = (Inr ''0xapprove'', 2) \<and>
    wait_for_transaction (src_network ?h) ''0xapprove'' 2 = (Inr FAILED, 3)"
    by (simp add: example_defs)
  show "fst (approve_stablecoin_usage ?h 50 example_state)
     = Inl (TransactionFailed ''Approve USDC usage transaction failed'')"
    using a check_tx_result_raises [where h = ?h and s = example_state and allowance = 40 and
        wa = 1 and amt = 50 and approve_hash = "''0xapprove''" and wb = 2 and result = FAILED and
        wc = 3]
    by (simp add: fst_check_tx_result example_helper_def)
next
  let ?h = "example_helper (example_network 100 50 50 NOT_FOUND) 50"
  let ?s1 = "snd (is_bridge_possible example_consts ?h example_state)"
  let ?s2 = "snd (approve_stablecoin_usage ?h (amount ?h) ?s1)"
  let ?s3 = "snd (send_swap_transaction example_consts ?h ?s2)"
  have b1: "is_bridge_possible example_consts ?h example_state = (Inr True, ?s1)"
    by (simp add: prod_eq_iff prog_defs example_defs)
  have b2: "approve_stablecoin_usage ?h (amount ?h) ?s1 = (Inr (), ?s2)"
    by (simp add: prod_eq_iff prog_defs example_defs)
  have b3: "send_swap_transaction example_consts ?h ?s2 = (Inr ''0xswap'', ?s3)"
    by (simp add: prod_eq_iff prog_defs example_defs amount_with_slippage_example)
  have b4: "wait_for_transaction (src_network ?h) ''0xswap'' (world ?s3)
              = (Inr NOT_FOUND, Suc (world ?s3))"
    by (simp add: example_defs)
  show "fst (make_bridge example_consts ?h example_state)
     = Inl (TransactionNotFound (''Stargate swap transaction can't be found in the blockchain'' @
                                 ''for a log time. Consider changing fee settings''))"
    using b1 b2 b3 b4
      check_tx_result_raises [where h = ?h and s = example_state and constants = example_consts
        and ?s1.0 = ?s1 and ?s2.0 = ?s2 and ?s3.0 = ?s3 and swap_hash = "''0xswap''"
        and result = NOT_FOUND and wd = "Suc (world ?s3)"]
    by (simp add: fst_check_tx_result)
qed

text \<open>
  C10. A status other than \<open>NOT_FOUND\<close>, \<open>FAILED\<close> and \<open>SUCCESS\<close> falls through the three
  tests of the result check: it returns normally, raises nothing and logs nothing (the
  state is unchanged). Both confirmation steps therefore treat such a status as a
  non-error outcome: the approval step returns, and \<^verbatim>\<open>make_bridge\<close> completes with \<^verbatim>\<open>None\<close>,
  neither adding a log record.
\<close>

theorem check_tx_result_unrecognized:
  assumes "result \<noteq> NOT_FOUND" and "result \<noteq> FAILED" and "result \<noteq> SUCCESS"
  shows "check_tx_result result nm s = (Inr (), s) \<and>
   (get_token_allowance (src_network h) (contract_address (src_stablecoin h))
        (address (account h)) (stargate_router_address (src_network h)) (world s) = (Inr allowance, wa) \<and>
    allowance < amt \<and>
    approve_token_usage (src_network h) (key (account h)) (contract_address (src_stablecoin h))
        (stargate_router_address (src_network h)) amt wa = (Inr approve_hash, wb) \<and>
    wait_for_transaction (src_network h) approve_hash wb = (Inr result, wc) \<longrightarrow>
    fst (approve_stablecoin_usage h amt s) = Inr () \<and>
    logged (snd (approve_stablecoin_usage h amt s)) = logged s) \<and>
   (is_bridge_possible constants h s = (Inr True, s1) \<and>
    approve_stablecoin_usage h (amount h) s1 = (Inr (), s2) \<and>
    send_swap_transaction constants h s2 = (Inr swap_hash, s3) \<and>
    wait_for_transaction (src_network h) swap_hash (world s3) = (Inr result, wd) \<longrightarrow>
    fst (make_bridge constants h s) = Inr None \<and>
    logged (snd (make_bridge constants h s)) = logged s3)"
proof (intro conjI impI)
  show c: "check_tx_result result nm s = (Inr (), s)" for nm and s :: "'b state"
    using assms by (simp add: check_tx_result_def ret_def)
  {
    assume a: "get_token_allowance (src_network h) (contract_address (src_stablecoin h))
        (address (account h)) (stargate_router_address (src_network h)) (world s) = (Inr allowance, wa) \<and>
      allowance < amt \<and>
      approve_token_usage (src_network h) (key (account h)) (contract_address (src_stablecoin h))
        (stargate_router_address (src_network h)) amt wa = (Inr approve_hash, wb) \<and>
      wait_for_transaction (src_network h) approve_hash wb = (Inr result, wc)"
    have e: "approve_stablecoin_usage h amt s =
           check_tx_result result (''Approve '' @ symbol (src_stablecoin h) @ '' usage'')
             (s\<lparr>world := wc,
                 calls := calls s @
                   [Get_token_allowance (contract_address (src_stablecoin h)) (address (account h))
                      (stargate_router_address (src_network h)),
                    Approve_token_usage (key (account h)) (contract_address (src_stablecoin h))
                      (stargate_router_address (src_network h)) amt,
                    Wait_for_transaction approve_hash]\<rparr>)"
      using a approve_stablecoin_usage_submit [where h = h and s = s and allowance = allowance and
        wa = wa and amt = amt and tx_hash = approve_hash and wb = wb and result = result and
        wc = wc] by simp
    show "fst (approve_stablecoin_usage h amt s) = Inr ()" using assms e
      by (simp add: check_tx_result_def ret_def)
    show "logged (snd (approve_stablecoin_usage h amt s)) = logged s" using assms e
      by (simp add: check_tx_result_def ret_def)
  }
  {
    assume a: "is_bridge_possible constants h s = (Inr True, s1) \<and>
      approve_stablecoin_usage h (amount h) s1 = (Inr (), s2) \<and>
      send_swap_transaction constants h s2 = (Inr swap_hash, s3) \<and>
      wait_for_transaction (src_network h) swap_hash (world s3) = (Inr result, wd)"
    have e: "make_bridge constants h s =
           (case check_tx_result result ''Stargate swap''
                   (s3\<lparr>world := wd, calls := calls s3 @ [Wait_for_transaction swap_hash]\<rparr>) of
              (Inl e, s') \<Rightarrow> (Inl e, s')
            | (Inr u, s') \<Rightarrow> (Inr None, s'))"
      using a make_bridge_confirm [where constants = constants and h = h and s = s and ?s1.0 = s1
        and ?s2.0 = s2 and tx_hash = swap_hash and ?s3.0 = s3 and result = result and wd = wd]
      by simp
    show "fst (make_bridge constants h s) = Inr None" using assms e
      by (simp add: check_tx_result_def ret_def)
    show "logged (snd (make_bridge constants h s)) = logged s3" using assms e
      by (simp add: check_tx_result_def ret_def)
  }
qed

theorem check_tx_result_unrecognized_witness:
  "OTHER 7 \<noteq> NOT_FOUND \<and> OTHER 7 \<noteq> FAILED \<and> OTHER 7 \<noteq> SUCCESS \<and>
   check_tx_result (OTHER 7) ''Stargate swap'' example_state = (Inr (), example_state) \<and>
   fst (approve_stablecoin_usage (example_helper (example_network 100 50 40 (OTHER 7)) 50) 50
          example_state) = Inr () \<and>
   fst (make_bridge example_consts (example_helper (example_network 100 50 50 (OTHER 7)) 50)
          example_state) = Inr None \<and>
   logged (snd (make_bridge example_consts (example_helper (example_network 100 50 50 (OTHER 7)) 50)
          example_state)) = [Estimated_fees 5 [(''gasPrice'', Int_val 2)], Swap_sent ''0xswap'']"
proof -
  have n: "OTHER 7 \<noteq> NOT_FOUND" "OTHER 7 \<noteq> FAILED" "OTHER 7 \<noteq> SUCCESS" by simp_all
  let ?h = "example_helper (example_network 100 50 40 (OTHER 7)) 50"
  have a: "get_token_allowance (src_network ?h) (contract_address (src_stablecoin ?h))
        (address (account ?h)) (stargate_router_address (src_network ?h)) (world example_state)
        = (Inr 40, 1) \<and>
    (40::int) < 50 \<and>
    approve_token_usage (src_network ?h) (key (account ?h)) (contract_address (src_stablecoin ?h))
        (stargate_router_address (src_network ?h)) 50 1 = (Inr ''0xapprove'', 2) \<and>
    wait_for_transaction (src_network ?h) ''0xapprove'' 2 = (Inr (OTHER 7), 3)"
    by (simp add: example_defs)
  have A: "check_tx_result (OTHER 7) ''Stargate swap'' example_state = (Inr (), example_state) \<and>
      fst (approve_stablecoin_usage ?h 50 example_state) = Inr ()"
    using a check_tx_result_unrecognized [OF n, where h = ?h and s = example_state and
        allowance = 40 and wa = 1 and amt = 50 and approve_hash = "''0xapprove''" and wb = 2 and
        wc = 3 and nm = "''Stargate swap''"]
    by simp
  let ?g = "example_helper (example_network 100 50 50 (OTHER 7)) 50"
  let ?s1 = "snd (is_bridge_possible example_consts ?g example_state)"
  let ?s2 = "snd (approve_stablecoin_usage ?g (amount ?g) ?s1)"
  let ?s3 = "snd (send_swap_transaction example_consts ?g ?s2)"
  have b1: "is_bridge_possible example_consts ?g example_state = (Inr True, ?s1)"
    by (simp add: prod_eq_iff prog_defs example_defs)
  have b2: "approve_stablecoin_usage ?g (amount ?g) ?s1 = (Inr (), ?s2)"
    by (simp add: prod_eq_iff prog_defs example_defs)
  have b3: "send_swap_transaction example_consts ?g ?s2 = (Inr ''0xswap'', ?s3)"
    by (simp add: prod_eq_iff prog_defs example_defs amount_with_slippage_example)
  have b4: "wait_for_transaction (src_network ?g) ''0xswap'' (world ?s3)
              = (Inr (OTHER 7), Suc (world ?s3))"
    by (simp add: example_defs)
  have l3: "logged ?s3 = [Estimated_fees 5 [(''gasPrice'', Int_val 2)], Swap_sent ''0xswap'']"
    by (simp add: prog_defs example_defs amount_with_slippage_example)
  have B: "fst (make_bridge example_consts ?g example_state) = Inr None \<and>
      logged (snd (make_bridge example_consts ?g example_state)) = logged ?s3"
    using b1 b2 b3 b4
      check_tx_result_unrecognized [OF n, where h = ?g and s = example_state and
        constants = example_consts and ?s1.0 = ?s1 and ?s2.0 = ?s2 and ?s3.0 = ?s3 and
        swap_hash = "''0xswap''" and wd = "Suc (world ?s3)"]
    by simp
  show ?thesis using n A B l3 by simp
qed

text \<open>
  C3. With \<open>b\<close> the balance the source network reports for the address, \<open>g\<close> the
  estimated gas cost and \<open>f\<close> the quoted relay fee, the native-balance check returns
  \<open>False\<close> when \<open>b \<le> g + f\<close> and \<open>True\<close> otherwise; at \<open>b = g + f\<close> it returns \<open>False\<close>.
\<close>

theorem native_balance_check:
  assumes "get_balance src addr (world s) = (Inr b, wa)"
    and "estimate_swap_gas_price constants src
           (s\<lparr>world := wa, calls := calls s @ [Get_balance addr]\<rparr>) = (Inr g, s2)"
    and "estimate_layerzero_swap_fee src dst addr s2 = (Inr f, s3)"
  shows "fst (is_enough_native_token_balance_for_stargate_swap_fee constants src dst addr s)
           = Inr (\<not> b \<le> g + f) \<and>
         (b = g + f \<longrightarrow>
            fst (is_enough_native_token_balance_for_stargate_swap_fee constants src dst addr s)
              = Inr False)"
  using is_enough_eq [OF assms] by auto

theorem native_balance_check_witness:
  "get_balance (example_network 15 50 50 SUCCESS) ''0xsender'' (world example_state) = (Inr 15, 1) \<and>
   fst (estimate_swap_gas_price example_consts (example_network 15 50 50 SUCCESS)
          (example_state\<lparr>world := 1, calls := calls example_state @ [Get_balance ''0xsender'']\<rparr>))
     = Inr 10 \<and>
   fst (estimate_layerzero_swap_fee (example_network 15 50 50 SUCCESS) example_dst ''0xsender''
          (snd (estimate_swap_gas_price example_consts (example_network 15 50 50 SUCCESS)
             (example_state\<lparr>world := 1, calls := calls example_state @ [Get_balance ''0xsender'']\<rparr>))))
     = Inr 5 \<and>
   fst (is_enough_native_token_balance_for_stargate_swap_fee example_consts
          (example_network 15 50 50 SUCCESS) example_dst ''0xsender'' example_state) = Inr False"
proof -
  let ?n = "example_network 15 50 50 SUCCESS"
  let ?s1 = "example_state\<lparr>world := 1, calls := calls example_state @ [Get_balance ''0xsender'']\<rparr>"
  let ?s2 = "snd (estimate_swap_gas_price example_consts ?n ?s1)"
  let ?s3 = "snd (estimate_layerzero_swap_fee ?n example_dst ''0xsender'' ?s2)"
  have h1: "get_balance ?n ''0xsender'' (world example_state) = (Inr 15, 1)"
    by (simp add: example_defs)
  have h2: "estimate_swap_gas_price example_consts ?n ?s1 = (Inr 10, ?s2)"
    by (simp add: prod_eq_iff prog_defs example_defs)
  have h3: "estimate_layerzero_swap_fee ?n example_dst ''0xsender'' ?s2 = (Inr 5, ?s3)"
    by (simp add: prod_eq_iff prog_defs example_defs)
  show ?thesis
    using native_balance_check [OF h1 h2 h3] h1 h2 h3 by (simp add: prod_eq_iff)
qed

text \<open>
  C1. When the feasibility check fails, \<^verbatim>\<open>make_bridge\<close> returns \<^verbatim>\<open>False\<close> without raising
  and without submitting a state-changing transaction. The check fails when the native
  balance \<open>b\<close> the network reports is not greater than the estimated gas cost \<open>g\<close> plus the
  quoted relay fee \<open>f\<close>, or when the stablecoin balance it reports is less than the amount.
\<close>

theorem make_bridge_rejected:
  assumes "get_balance (src_network h) (address (account h)) (world s) = (Inr b, wa)"
    and "estimate_swap_gas_price constants (src_network h)
           (s\<lparr>world := wa, calls := calls s @ [Get_balance (address (account h))]\<rparr>) = (Inr g, s2)"
    and "estimate_layerzero_swap_fee (src_network h) (dst_network h) (address (account h)) s2
           = (Inr f, s3)"
    and "get_token_balance (src_network h) (contract_address (src_stablecoin h))
           (address (account h)) (world s3) = (Inr stablecoin_balance, wb)"
    and "b \<le> g + f \<or> stablecoin_balance < amount h"
  shows "fst (make_bridge constants h s) = Inr (Some False) \<and>
         issued (snd (make_bridge constants h s)) = issued s"
proof -
  have e: "is_enough_native_token_balance_for_stargate_swap_fee constants (src_network h)
             (dst_network h) (address (account h)) s = (Inr (g + f < b), s3)"
    using assms(1-3) by (rule is_enough_eq)
  have "\<exists>s'. is_bridge_possible constants h s = (Inr False, s')"
  proof (cases "g + f < b")
    case True
    then have "stablecoin_balance < amount h" using assms(5) by simp
    then show ?thesis using is_bridge_possible_enough [OF _ assms(4)] e True by simp
  next
    case False
    then show ?thesis using is_bridge_possible_not_enough e by fastforce
  qed
  then obtain s' where p: "is_bridge_possible constants h s = (Inr False, s')" by blast
  have m: "make_bridge constants h s = (Inr (Some False), s')"
    using p by (rule make_bridge_rejected_eq)
  have "issued s' = issued s" using issued_is_bridge_possible [of constants h s] p by simp
  then show ?thesis using m by simp
qed

theorem make_bridge_rejected_witness:
  "fst (make_bridge example_consts (example_helper (example_network 100 49 50 SUCCESS) 50)
          example_state) = Inr (Some False) \<and>
   issued (snd (make_bridge example_consts (example_helper (example_network 100 49 50 SUCCESS) 50)
          example_state)) = [] \<and>
   fst (make_bridge example_consts (example_helper (example_network 15 50 50 SUCCESS) 50)
          example_state) = Inr (Some False)"
proof -
  let ?n = "example_network 100 49 50 SUCCESS"
  let ?h = "example_helper ?n 50"
  let ?s1 = "example_state\<lparr>world := 1, calls := calls example_state @ [Get_balance (address (account ?h))]\<rparr>"
  let ?s2 = "snd (estimate_swap_gas_price example_consts (src_network ?h) ?s1)"
  let ?s3 = "snd (estimate_layerzero_swap_fee (src_network ?h) (dst_network ?h) (address (account ?h)) ?s2)"
  have h1: "get_balance (src_network ?h) (address (account ?h)) (world example_state) = (Inr 100, 1)"
    by (simp add: example_defs)
  have h2: "estimate_swap_gas_price example_consts (src_network ?h) ?s1 = (Inr 10, ?s2)"
    by (simp add: prod_eq_iff prog_defs example_defs)
  have h3: "estimate_layerzero_swap_fee (src_network ?h) (dst_network ?h) (address (account ?h)) ?s2
              = (Inr 5, ?s3)"
    by (simp add: prod_eq_iff prog_defs example_defs)
  have h4: "get_token_balance (src_network ?h) (contract_address (src_stablecoin ?h))
              (address (account ?h)) (world ?s3) = (Inr 49, Suc (world ?s3))"
    by (simp add: example_defs)
  have h5: "(100::int) \<le> 10 + 5 \<or> 49 < amount ?h"
    by (simp add: example_defs)
  let ?n' = "example_network 15 50 50 SUCCESS"
  let ?h' = "example_helper ?n' 50"
  let ?t1 = "example_state\<lparr>world := 1, calls := calls example_state @ [Get_balance (address (account ?h'))]\<rparr>"
  let ?t2 = "snd (estimate_swap_gas_price example_consts (src_network ?h') ?t1)"
  let ?t3 = "snd (estimate_layerzero_swap_fee (src_network ?h') (dst_network ?h') (address (account ?h')) ?t2)"
  have k1: "get_balance (src_network ?h') (address (account ?h')) (world example_state) = (Inr 15, 1)"
    by (simp add: example_defs)
  have k2: "estimate_swap_gas_price example_consts (src_network ?h') ?t1 = (Inr 10, ?t2)"
    by (simp add: prod_eq_iff prog_defs example_defs)
  have k3: "estimate_layerzero_swap_fee (src_network ?h') (dst_network ?h') (address (account ?h')) ?t2
              = (Inr 5, ?t3)"
    by (simp add: prod_eq_iff prog_defs example_defs)
  have k4: "get_token_balance (src_network ?h') (contract_address (src_stablecoin ?h'))
              (address (account ?h')) (world ?t3) = (Inr 50, Suc (world ?t3))"
    by (simp add: example_defs)
  have k5: "(15::int) \<le> 10 + 5 \<or> 50 < amount ?h'"
    by simp
  show ?thesis
    using make_bridge_rejected [OF h1 h2 h3 h4 h5] make_bridge_rejected [OF k1 k2 k3 k4 k5]
    by (simp add: issued_def example_state_def)
qed

text \<open>
  C9. \<^verbatim>\<open>make_bridge\<close> never returns \<^verbatim>\<open>True\<close>: it returns \<^verbatim>\<open>False\<close> exactly when the
  feasibility check returns \<^verbatim>\<open>False\<close>, and on its successful path (feasible, approved,
  swap submitted, polled status neither \<open>NOT_FOUND\<close> nor \<open>FAILED\<close>) it returns \<^verbatim>\<open>None\<close>.
\<close>

theorem make_bridge_return_value:
  "fst (make_bridge constants h s) \<noteq> Inr (Some True) \<and>
   (fst (make_bridge constants h s) = Inr (Some False) \<longleftrightarrow>
      fst (is_bridge_possible constants h s) = Inr False) \<and>
   (is_bridge_possible constants h s = (Inr True, s1) \<and>
    approve_stablecoin_usage h (amount h) s1 = (Inr (), s2) \<and>
    send_swap_transaction constants h s2 = (Inr tx_hash, s3) \<and>
    wait_for_transaction (src_network h) tx_hash (world s3) = (Inr result, wd) \<and>
    result \<noteq> NOT_FOUND \<and> result \<noteq> FAILED \<longrightarrow>
    fst (make_bridge constants h s) = Inr None)"
proof (intro conjI impI)
  show "fst (make_bridge constants h s) \<noteq> Inr (Some True)"
    using make_bridge_value [of constants h s "Some True"] by auto
  show "fst (make_bridge constants h s) = Inr (Some False) \<longleftrightarrow>
      fst (is_bridge_possible constants h s) = Inr False"
  proof
    assume "fst (make_bridge constants h s) = Inr (Some False)"
    then show "fst (is_bridge_possible constants h s) = Inr False"
      using make_bridge_value [of constants h s "Some False"] by auto
  next
    assume "fst (is_bridge_possible constants h s) = Inr False"
    then have "is_bridge_possible constants h s = (Inr False, snd (is_bridge_possible constants h s))"
      by (simp add: prod_eq_iff)
    then show "fst (make_bridge constants h s) = Inr (Some False)"
      using make_bridge_rejected_eq by fastforce
  qed
next
  assume a: "is_bridge_possible constants h s = (Inr True, s1) \<and>
    approve_stablecoin_usage h (amount h) s1 = (Inr (), s2) \<and>
    send_swap_transaction constants h s2 = (Inr tx_hash, s3) \<and>
    wait_for_transaction (src_network h) tx_hash (world s3) = (Inr result, wd) \<and>
    result \<noteq> NOT_FOUND \<and> result \<noteq> FAILED"
  then show "fst (make_bridge constants h s) = Inr None"
    using make_bridge_confirm [where constants = constants and h = h and s = s and ?s1.0 = s1
        and ?s2.0 = s2 and tx_hash = tx_hash and ?s3.0 = s3 and result = result and wd = wd]
    by (simp add: check_tx_result_def info_def ret_def)
qed

theorem make_bridge_return_value_witness:
  "fst (make_bridge example_consts (example_helper (example_network 100 50 50 SUCCESS) 50)
          example_state) = Inr None"
proof -
  let ?g = "example_helper (example_network 100 50 50 SUCCESS) 50"
  let ?s1 = "snd (is_bridge_possible example_consts ?g example_state)"
  let ?s2 = "snd (approve_stablecoin_usage ?g (amount ?g) ?s1)"
  let ?s3 = "snd (send_swap_transaction example_consts ?g ?s2)"
  have b1: "is_bridge_possible example_consts ?g example_state = (Inr True, ?s1)"
    by (simp add: prod_eq_iff prog_defs example_defs)
  have b2: "approve_stablecoin_usage ?g (amount ?g) ?s1 = (Inr (), ?s2)"
    by (simp add: prod_eq_iff prog_defs example_defs)
  have b3: "send_swap_transaction example_consts ?g ?s2 = (Inr ''0xswap'', ?s3)"
    by (simp add: prod_eq_iff prog_defs example_defs amount_with_slippage_example)
  have b4: "wait_for_transaction (src_network ?g) ''0xswap'' (world ?s3)
              = (Inr SUCCESS, Suc (world ?s3))"
    by (simp add: example_defs)
  show ?thesis
    using b1 b2 b3 b4
      make_bridge_return_value [where h = ?g and s = example_state and
        constants = example_consts and ?s1.0 = ?s1 and ?s2.0 = ?s2 and ?s3.0 = ?s3 and
        tx_hash = "''0xswap''" and result = SUCCESS and wd = "Suc (world ?s3)"]
    by simp
qed

text \<open>
  C5. With the allowance the network reports: when it is at least the amount, the approval
  step returns after that one read and submits no transaction; otherwise it submits
  exactly one approval transaction (for the account's key, the source stablecoin, the
  router as spender and the amount) and, once the submission has returned a hash, waits
  for that transaction.
\<close>

theorem approve_stablecoin_usage_transactions:
  assumes "get_token_allowance (src_network h) (contract_address (src_stablecoin h))
             (address (account h)) (stargate_router_address (src_network h)) (world s)
           = (Inr allowance, wa)"
  shows "(amt \<le> allowance \<longrightarrow>
            approve_stablecoin_usage h amt s =
              (Inr (), s\<lparr>world := wa,
                          calls := calls s @
                            [Get_token_allowance (contract_address (src_stablecoin h))
                               (address (account h)) (stargate_router_address (src_network h))]\<rparr>) \<and>
            issued (snd (approve_stablecoin_usage h amt s)) = issued s) \<and>
         (allowance < amt \<longrightarrow>
            issued (snd (approve_stablecoin_usage h amt s)) =
              issued s @ [Approve_token_usage (key (account h)) (contract_address (src_stablecoin h))
                            (stargate_router_address (src_network h)) amt] \<and>
            (approve_token_usage (src_network h) (key (account h))
                 (contract_address (src_stablecoin h)) (stargate_router_address (src_network h))
                 amt wa = (Inr tx_hash, wb) \<longrightarrow>
             calls (snd (approve_stablecoin_usage h amt s)) =
               calls s @
                 [Get_token_allowance (contract_address (src_stablecoin h)) (address (account h))
                    (stargate_router_address (src_network h)),
                  Approve_token_usage (key (account h)) (contract_address (src_stablecoin h))
                    (stargate_router_address (src_network h)) amt,
                  Wait_for_transaction tx_hash]))"
proof (intro conjI impI)
  assume le: "amt \<le> allowance"
  show e: "approve_stablecoin_usage h amt s =
              (Inr (), s\<lparr>world := wa,
                          calls := calls s @
                            [Get_token_allowance (contract_address (src_stablecoin h))
                               (address (account h)) (stargate_router_address (src_network h))]\<rparr>)"
    using assms le by (rule approve_stablecoin_usage_enough)
  show "issued (snd (approve_stablecoin_usage h amt s)) = issued s"
    by (simp add: e issued_def)
next
  assume "allowance < amt"
  with assms show "issued (snd (approve_stablecoin_usage h amt s)) =
              issued s @ [Approve_token_usage (key (account h)) (contract_address (src_stablecoin h))
                            (stargate_router_address (src_network h)) amt]"
    by (rule approve_stablecoin_usage_issued)
next
  assume "allowance < amt"
    and "approve_token_usage (src_network h) (key (account h))
                 (contract_address (src_stablecoin h)) (stargate_router_address (src_network h))
                 amt wa = (Inr tx_hash, wb)"
  with assms show "calls (snd (approve_stablecoin_usage h amt s)) =
               calls s @
                 [Get_token_allowance (contract_address (src_stablecoin h)) (address (account h))
                    (stargate_router_address (src_network h)),
                  Approve_token_usage (key (account h)) (contract_address (src_stablecoin h))
                    (stargate_router_address (src_network h)) amt,
                  Wait_for_transaction tx_hash]"
    by (rule approve_stablecoin_usage_waits)
qed

theorem approve_stablecoin_usage_transactions_witness:
  "approve_stablecoin_usage (example_helper (example_network 100 50 50 SUCCESS) 50) 50 example_state
     = (Inr (), \<lparr>world = 1,
                 calls = [Get_token_allowance ''0xusdc'' ''0xsender'' ''0xrouter''],
                 logged = []\<rparr>) \<and>
   issued (snd (approve_stablecoin_usage (example_helper (example_network 100 50 50 SUCCESS) 50) 50
                  example_state)) = [] \<and>
   issued (snd (approve_stablecoin_usage (example_helper (example_network 100 50 40 SUCCESS) 50) 50
                  example_state)) = [Approve_token_usage ''secret'' ''0xusdc'' ''0xrouter'' 50] \<and>
   calls (snd (approve_stablecoin_usage (example_helper (example_network 100 50 40 SUCCESS) 50) 50
                 example_state)) =
     [Get_token_allowance ''0xusdc'' ''0xsender'' ''0xrouter'',
      Approve_token_usage ''secret'' ''0xusdc'' ''0xrouter'' 50,
      Wait_for_transaction ''0xapprove'']"
proof -
  let ?h = "example_helper (example_network 100 50 50 SUCCESS) 50"
  let ?g = "example_helper (example_network 100 50 40 SUCCESS) 50"
  have a: "get_token_allowance (src_network ?h) (contract_address (src_stablecoin ?h))
             (address (account ?h)) (stargate_router_address (src_network ?h)) (world example_state)
           = (Inr 50, 1)"
    by (simp add: example_defs)
  have b: "get_token_allowance (src_network ?g) (contract_address (src_stablecoin ?g))
             (address (account ?g)) (stargate_router_address (src_network ?g)) (world example_state)
           = (Inr 40, 1)"
    by (simp add: example_defs)
  have c: "approve_token_usage (src_network ?g) (key (account ?g))
                 (contract_address (src_stablecoin ?g)) (stargate_router_address (src_network ?g))
                 50 1 = (Inr ''0xapprove'', 2)"
    by (simp add: example_defs)
  show ?thesis
    using approve_stablecoin_usage_transactions [OF a, where amt = 50]
      approve_stablecoin_usage_transactions [OF b, where amt = 50 and tx_hash = "''0xapprove''"
        and wb = 2] c
    by (simp add: issued_def example_defs)
qed

text \<open>
  C6, as stated, fails: the native-balance check has no handler around its queries. On
  a network whose balance lookup raises, the check raises the same error instead of
  returning \<^verbatim>\<open>False\<close>.
\<close>

theorem native_balance_check_failure_counterexample:
  "fst (is_enough_native_token_balance_for_stargate_swap_fee example_consts unreachable_network
          example_dst ''0xsender'' example_state) = Inl (External ''connection refused'') \<and>
   fst (is_enough_native_token_balance_for_stargate_swap_fee example_consts unreachable_network
          example_dst ''0xsender'' example_state) \<noteq> Inr False"
  by (simp add: prog_defs example_defs)

text \<open>
  C6, amended. When the balance lookup, the gas estimation or the fee quote raises, the
  native-balance check raises that same error; when all three return, it returns the
  boolean \<open>g + f < b\<close> without raising.
\<close>

theorem native_balance_check_propagates:
  "(get_balance src addr (world s) = (Inl e, wa) \<longrightarrow>
      fst (is_enough_native_token_balance_for_stargate_swap_fee constants src dst addr s) = Inl e) \<and>
   (get_balance src addr (world s) = (Inr b, wa) \<and>
    estimate_swap_gas_price constants src
      (s\<lparr>world := wa, calls := calls s @ [Get_balance addr]\<rparr>) = (Inl e, s2) \<longrightarrow>
      fst (is_enough_native_token_balance_for_stargate_swap_fee constants src dst addr s) = Inl e) \<and>
   (get_balance src addr (world s) = (Inr b, wa) \<and>
    estimate_swap_gas_price constants src
      (s\<lparr>world := wa, calls := calls s @ [Get_balance addr]\<rparr>) = (Inr g, s2) \<and>
    estimate_layerzero_swap_fee src dst addr s2 = (Inl e, s3) \<longrightarrow>
      fst (is_enough_native_token_balance_for_stargate_swap_fee constants src dst addr s) = Inl e) \<and>
   (get_balance src addr (world s) = (Inr b, wa) \<and>
    estimate_swap_gas_price constants src
      (s\<lparr>world := wa, calls := calls s @ [Get_balance addr]\<rparr>) = (Inr g, s2) \<and>
    estimate_layerzero_swap_fee src dst addr s2 = (Inr f, s3) \<longrightarrow>
      fst (is_enough_native_token_balance_for_stargate_swap_fee constants src dst addr s)
        = Inr (g + f < b))"
  by (simp add: is_enough_native_token_balance_for_stargate_swap_fee_def bind_prog_def call_def
        ret_def)


theorem native_balance_check_propagates_witness:
  "fst (is_enough_native_token_balance_for_stargate_swap_fee example_consts unreachable_network
          example_dst ''0xsender'' example_state) = Inl (External ''connection refused'') \<and>
   fst (is_enough_native_token_balance_for_stargate_swap_fee
          (example_consts\<lparr>SWAP_GAS_LIMIT := (\<lambda>n. None)\<rparr>) (example_network 100 50 50 SUCCESS)
          example_dst ''0xsender'' example_state) = Inl KeyError \<and>
   fst (is_enough_native_token_balance_for_stargate_swap_fee example_consts
          ((example_network 100 50 50 SUCCESS)
             \<lparr>w3 := example_w3\<lparr>quoteLayerZeroFee :=
                                   (\<lambda>c chain fn_type d payload params w. (Inr [], Suc w))\<rparr>\<rparr>)
          example_dst ''0xsender'' example_state) = Inl IndexError \<and>
   fst (is_enough_native_token_balance_for_stargate_swap_fee example_consts
          (example_network 100 50 50 SUCCESS) example_dst ''0xsender'' example_state) = Inr True"
proof -
  let ?n = "example_network 100 50 50 SUCCESS"
  let ?q = "?n\<lparr>w3 := example_w3\<lparr>quoteLayerZeroFee :=
                                   (\<lambda>c chain fn_type d payload params w. (Inr [], Suc w))\<rparr>\<rparr>"
  let ?c = "example_consts\<lparr>SWAP_GAS_LIMIT := (\<lambda>n. None)\<rparr>"
  let ?s1 = "example_state\<lparr>world := 1, calls := calls example_state @ [Get_balance ''0xsender'']\<rparr>"
  have a: "get_balance unreachable_network ''0xsender'' (world example_state)
             = (Inl (External ''connection refused''), 0)"
    by (simp add: example_defs)
  have b1: "get_balance ?n ''0xsender'' (world example_state) = (Inr 100, 1)"
    by (simp add: example_defs)
  have b2: "estimate_swap_gas_price ?c ?n ?s1
              = (Inl KeyError, snd (estimate_swap_gas_price ?c ?n ?s1))"
    by (simp add: prod_eq_iff prog_defs example_defs)
  have c1: "get_balance ?q ''0xsender'' (world example_state) = (Inr 100, 1)"
    by (simp add: example_defs)
  let ?t2 = "snd (estimate_swap_gas_price example_consts ?q ?s1)"
  have c2: "estimate_swap_gas_price example_consts ?q ?s1 = (Inr 10, ?t2)"
    by (simp add: prod_eq_iff prog_defs example_defs)
  have c3: "estimate_layerzero_swap_fee ?q example_dst ''0xsender'' ?t2
              = (Inl IndexError, snd (estimate_layerzero_swap_fee ?q example_dst ''0xsender'' ?t2))"
    by (simp add: prod_eq_iff prog_defs example_defs)
  let ?u2 = "snd (estimate_swap_gas_price example_consts ?n ?s1)"
  have d2: "estimate_swap_gas_price example_consts ?n ?s1 = (Inr 10, ?u2)"
    by (simp add: prod_eq_iff prog_defs example_defs)
  have d3: "estimate_layerzero_swap_fee ?n example_dst ''0xsender'' ?u2
              = (Inr 5, snd (estimate_layerzero_swap_fee ?n example_dst ''0xsender'' ?u2))"
    by (simp add: prod_eq_iff prog_defs example_defs)
  have A: "fst (is_enough_native_token_balance_for_stargate_swap_fee example_consts
                  unreachable_network example_dst ''0xsender'' example_state)
             = Inl (External ''connection refused'')"
    using a native_balance_check_propagates [where src = unreachable_network and
        addr = "''0xsender''" and s = example_state and e = "External ''connection refused''"
        and wa = 0 and constants = example_consts and dst = example_dst]
    by simp
  have B: "fst (is_enough_native_token_balance_for_stargate_swap_fee ?c ?n example_dst
                  ''0xsender'' example_state) = Inl KeyError"
    using b1 b2 native_balance_check_propagates [where src = ?n and
        addr = "''0xsender''" and s = example_state and e = KeyError and b = 100
        and wa = 1 and constants = ?c and dst = example_dst and
        ?s2.0 = "snd (estimate_swap_gas_price ?c ?n ?s1)"]
    by simp
  have C: "fst (is_enough_native_token_balance_for_stargate_swap_fee example_consts ?q example_dst
                  ''0xsender'' example_state) = Inl IndexError"
    using c1 c2 c3 native_balance_check_propagates [where src = ?q and
        addr = "''0xsender''" and s = example_state and e = IndexError and b = 100 and g = 10
        and wa = 1 and constants = example_consts and dst = example_dst and ?s2.0 = ?t2 and
        ?s3.0 = "snd (estimate_layerzero_swap_fee ?q example_dst ''0xsender'' ?t2)"]
    by simp
  have D: "fst (is_enough_native_token_balance_for_stargate_swap_fee example_consts ?n example_dst
                  ''0xsender'' example_state) = Inr True"
    using b1 d2 d3 native_balance_check_propagates [where src = ?n and
        addr = "''0xsender''" and s = example_state and b = 100 and g = 10 and f = 5
        and wa = 1 and constants = example_consts and dst = example_dst and ?s2.0 = ?u2 and
        ?s3.0 = "snd (estimate_layerzero_swap_fee ?n example_dst ''0xsender'' ?u2)"]
    by simp
  show ?thesis using A B C D by simp
qed







text \<open>
  C2, as stated, fails: line 110 multiplies the integer amount by the float slippage in
  binary64 arithmetic, so the amount is first rounded to a float and the product is
  rounded again before \<^verbatim>\<open>int\<close> truncates it. For the amount \<open>2 ^ 53 + 3\<close> and the slippage
  \<open>0.5\<close> the code computes \<open>4503599627370497\<close>, while \<open>a - floor(a \<sqdot> s)\<close> is
  \<open>4503599627370498\<close>.
\<close>

theorem amount_with_slippage_rounding_counterexample:
  "amount_with_slippage 9007199254740995 (Finite (1 / 2)) = Inr 4503599627370497 \<and>
   amount_with_slippage_spec 9007199254740995 (1 / 2) = 4503599627370498 \<and>
   amount_with_slippage 9007199254740995 (Finite (1 / 2))
     \<noteq> Inr (amount_with_slippage_spec 9007199254740995 (1 / 2))"
proof -
  have a: "round_binary64 9007199254740995 = Finite 9007199254740996"
    by (rule round_binary64_normal [where e = 53])
       (simp_all add: round_half_even_def floor_rat_numeral_div)
  have b: "round_binary64 (9007199254740996 * (1 / 2)) = Finite 4503599627370498"
    by (rule round_binary64_normal [where e = 52])
       (simp_all add: round_half_even_def floor_rat_numeral_div)
  have c: "amount_with_slippage 9007199254740995 (Finite (1 / 2)) = Inr 4503599627370497"
    using a b
    by (simp add: amount_with_slippage_def int_mul_float_def float_of_int_def)
  have d: "amount_with_slippage_spec 9007199254740995 (1 / 2) = 4503599627370498"
    by (simp add: amount_with_slippage_spec_def floor_rat_numeral_div)
  show ?thesis using c d by simp
qed

text \<open>
  C2, amended. For every amount \<open>a > 0\<close> that converts to a float \<open>x\<close> and every binary64
  slippage \<open>r\<close> in \<open>[0, 1)\<close>, the computation returns \<open>a - floor(y)\<close>, where \<open>y\<close> is the
  binary64 product of \<open>x\<close> and \<open>r\<close>; the result lies between \<open>0\<close> and \<open>a\<close>; and it is
  \<open>a - floor(a \<sqdot> r)\<close> when neither the conversion nor the product is rounded.
\<close>

theorem amount_with_slippage_bounds:
  assumes "0 < a"
    and "float_of_int a = Inr (Finite x)"
    and "round_binary64 r = Finite r" and "0 \<le> r" and "r < 1"
  shows "\<exists>y. float_mul (Finite x) (Finite r) = Finite y \<and>
             amount_with_slippage a (Finite r) = Inr (a - \<lfloor>y\<rfloor>) \<and>
             0 \<le> a - \<lfloor>y\<rfloor> \<and> a - \<lfloor>y\<rfloor> \<le> a \<and>
             (x = of_int a \<and> y = of_int a * r \<longrightarrow>
                amount_with_slippage a (Finite r) = Inr (amount_with_slippage_spec a r))"
proof -
  have fa: "round_binary64 (of_int a) = Finite x"
    using assms(2) by (simp add: float_of_int_def split: pyfloat.splits)
  have "\<exists>y. round_binary64 (x * r) = Finite y \<and> 0 \<le> y \<and> y \<le> of_int a"
  proof (cases "r = 0")
    case True
    have "(0::rat) \<le> of_int a" using assms(1) by simp
    then show ?thesis using True by (simp add: round_binary64_def)
  next
    case False
    then have r0: "0 < r" using assms(4) by simp
    have "r \<le> 1 - 1 / 2 ^ 53" using assms(3) r0 assms(5) by (rule binary64_below_one)
    with assms(1) fa r0 show ?thesis by (rule float_product_le)
  qed
  then obtain y where y: "round_binary64 (x * r) = Finite y" "0 \<le> y" "y \<le> of_int a" by blast
  have m: "float_mul (Finite x) (Finite r) = Finite y" using y(1) by simp
  have e: "amount_with_slippage a (Finite r) = Inr (a - \<lfloor>y\<rfloor>)"
    using assms(2) m y(2) by (simp add: amount_with_slippage_def int_mul_float_def)
  have lo: "0 \<le> \<lfloor>y\<rfloor>" using y(2) by simp
  have "\<lfloor>y\<rfloor> \<le> \<lfloor>of_int a :: rat\<rfloor>" using y(3) by (rule floor_mono)
  then have hi: "\<lfloor>y\<rfloor> \<le> a" by simp
  have s: "x = of_int a \<and> y = of_int a * r \<longrightarrow>
             amount_with_slippage a (Finite r) = Inr (amount_with_slippage_spec a r)"
    using e by (simp add: amount_with_slippage_spec_def)
  have b: "0 \<le> a - \<lfloor>y\<rfloor> \<and> a - \<lfloor>y\<rfloor> \<le> a" using lo hi by simp
  show ?thesis using m e b s by (intro exI [of _ y]) simp
qed


theorem amount_with_slippage_bounds_witness:
  "(0::int) < 10 \<and>
   float_of_int 10 = Inr (Finite 10) \<and>
   round_binary64 (5404319552844595 / 18014398509481984)
     = Finite (5404319552844595 / 18014398509481984) \<and>
   (0::rat) \<le> 5404319552844595 / 18014398509481984 \<and>
   (5404319552844595 / 18014398509481984 :: rat) < 1 \<and>
   (\<exists>m. amount_with_slippage 10 (Finite (5404319552844595 / 18014398509481984)) = Inr m \<and>
        0 \<le> m \<and> m \<le> 10)"
proof -
  have h1: "(0::int) < 10" by simp
  have "round_binary64 10 = Finite 10"
    by (rule round_binary64_normal [where e = 3]) (simp_all add: round_half_even_def)
  then have h2: "float_of_int 10 = Inr (Finite 10)" by (simp add: float_of_int_def)
  have h3: "round_binary64 (5404319552844595 / 18014398509481984)
              = Finite (5404319552844595 / 18014398509481984)"
    by (rule round_binary64_normal [where e = "- 2"])
       (simp_all add: round_half_even_def power_int_minus_divide)
  have h4: "(0::rat) \<le> 5404319552844595 / 18014398509481984" by simp
  have h5: "(5404319552844595 / 18014398509481984 :: rat) < 1" by simp
  have "\<exists>m. amount_with_slippage 10 (Finite (5404319552844595 / 18014398509481984)) = Inr m \<and>
          0 \<le> m \<and> m \<le> 10"
    using amount_with_slippage_bounds [OF h1 h2 h3 h4 h5] by blast
  then show ?thesis using h1 h2 h3 h4 h5 by simp
qed

end
